theory Spec2Isabelle
  imports Complex_Main
begin

section \<open>JavaScript values used by the controllers\<close>

text \<open>
  A JavaScript \<open>number\<close> is an IEEE 754 binary64 value. A finite one is modelled by
  the rational it denotes: prices, quantities, stock levels and totals. Comparisons are
  exact; the result of an addition or a multiplication is rounded to the nearest
  binary64 value (\<open>binary64\<close> below). \<open>NaN\<close>, the infinities and the overflow of a
  result beyond the largest finite value are outside the model.
  Mongo object ids are compared through \<open>toString()\<close> in the source, so an id is its
  string.
\<close>

type_synonym number = rat
type_synonym objectId = string

text \<open>The number of binary digits of a positive integer.\<close>

function bitlen :: "int \<Rightarrow> int" where
  "bitlen n = (if n \<le> 0 then 0 else 1 + bitlen (n div 2))"
  by auto
termination
  by (relation "measure nat") auto

declare bitlen.simps [simp del]

text \<open>\<open>2\<close> to an integer power.\<close>

definition pow2 :: "int \<Rightarrow> rat" where
  "pow2 k = (if 0 \<le> k then 2 ^ nat k else 1 / 2 ^ nat (- k))"

text \<open>The binary exponent of a positive rational: the \<open>k\<close> with \<open>2^k \<le> x < 2^(k+1)\<close>.\<close>

definition ilog2 :: "rat \<Rightarrow> int" where
  "ilog2 x =
     (if 1 \<le> x then bitlen \<lfloor>x\<rfloor> - 1
      else - bitlen (\<lceil>1 / x\<rceil> - 1))"

text \<open>Rounding to the nearest integer, a tie going to the even one.\<close>

definition round_half_even :: "rat \<Rightarrow> int" where
  "round_half_even y =
     (let f = \<lfloor>y\<rfloor>; r = y - of_int f
      in if r < 1 / 2 then f
         else if 1 / 2 < r then f + 1
         else if even f then f else f + 1)"

text \<open>
  Rounding to binary64, to nearest with ties to even: 53 significant binary digits, the
  exponent of the leading digit not below \<open>-1022\<close> (values below \<open>2^-1022\<close> are
  subnormal and are rounded to a multiple of \<open>2^-1074\<close>).
\<close>

definition binary64 :: "rat \<Rightarrow> number" where
  "binary64 x =
     (if x = 0 then 0
      else (let e = max (ilog2 \<bar>x\<bar>) (- 1022) - 52;
                ulp = pow2 e
            in of_int (round_half_even (x / ulp)) * ulp))"

text \<open>\<open>a || b\<close> on numbers: \<open>0\<close> is the falsy number.\<close>

definition js_or_num :: "number \<Rightarrow> number \<Rightarrow> number" where
  "js_or_num a b = (if a \<noteq> 0 then a else b)"

text \<open>
  \<open>!x\<close> on a string field of the request body. A missing field and the empty string
  are both falsy and the controllers never tell them apart, so a missing field is the
  empty string here.
\<close>

definition js_not :: "string \<Rightarrow> bool" where
  "js_not x = (x = [])"

text \<open>
  The lookup tables of the controllers are object literals typed \<open>Record<string, ...>\<close>.
  Indexing an object literal with a key it does not own falls through to
  \<open>Object.prototype\<close>: for the twelve property names below the result is a function (or,
  for \<open>__proto__\<close>, the prototype object), which is truthy and is not a string; for
  every other key the result is \<open>undefined\<close>.
\<close>

datatype js_value = JString string | JNonString

definition Object_prototype_props :: "string list" where
  "Object_prototype_props =
     [''constructor'', ''__defineGetter__'', ''__defineSetter__'', ''hasOwnProperty'',
      ''__lookupGetter__'', ''__lookupSetter__'', ''isPrototypeOf'',
      ''propertyIsEnumerable'', ''toString'', ''valueOf'', ''__proto__'',
      ''toLocaleString'']"

definition js_index :: "(string \<times> string) list \<Rightarrow> string \<Rightarrow> js_value option" where
  "js_index tbl k =
     (case map_of tbl k of
        Some v \<Rightarrow> Some (JString v)
      | None \<Rightarrow> if k \<in> set Object_prototype_props then Some JNonString else None)"

text \<open>\<open>tbl[k] || d\<close>: \<open>undefined\<close> and the empty string give the default \<open>d\<close>.\<close>

definition js_index_or :: "(string \<times> string) list \<Rightarrow> string \<Rightarrow> string \<Rightarrow> js_value" where
  "js_index_or tbl k d =
     (case js_index tbl k of
        None \<Rightarrow> JString d
      | Some (JString v) \<Rightarrow> if v = [] then JString d else JString v
      | Some JNonString \<Rightarrow> JNonString)"

text \<open>\<open>String.prototype.toUpperCase\<close> on ASCII text (the base-36 digits are ASCII).\<close>

definition toUpperCase_char :: "char \<Rightarrow> char" where
  "toUpperCase_char c =
     (case map_of (zip ''abcdefghijklmnopqrstuvwxyz'' ''ABCDEFGHIJKLMNOPQRSTUVWXYZ'') c of
        Some u \<Rightarrow> u
      | None \<Rightarrow> c)"

definition toUpperCase :: "string \<Rightarrow> string" where
  "toUpperCase s = map toUpperCase_char s"

text \<open>\<open>String.prototype.toLowerCase\<close> on ASCII text.\<close>

definition toLowerCase_char :: "char \<Rightarrow> char" where
  "toLowerCase_char c =
     (case map_of (zip ''ABCDEFGHIJKLMNOPQRSTUVWXYZ'' ''abcdefghijklmnopqrstuvwxyz'') c of
        Some l \<Rightarrow> l
      | None \<Rightarrow> c)"

definition toLowerCase :: "string \<Rightarrow> string" where
  "toLowerCase s = map toLowerCase_char s"

text \<open>
  Mongoose casts the string of a request to an \<open>ObjectId\<close> wherever the schema has one:
  in the condition of \<open>findById\<close> and in a document that is created or saved. The
  cast reads the hexadecimal digits in either case, and \<open>toString()\<close> renders them in
  lower case. A string that is no id makes the query reject with a \<open>CastError\<close>, which
  is one of the rejections of the environment below.
\<close>

definition ObjectId_toString :: "string \<Rightarrow> objectId" where
  "ObjectId_toString raw = toLowerCase raw"

text \<open>\<open>s.substr(start, len)\<close> for a start inside or past the string.\<close>

definition substr :: "string \<Rightarrow> nat \<Rightarrow> nat \<Rightarrow> string" where
  "substr s start len = take len (drop start s)"

text \<open>The decimal rendering of a non-negative integer inside a template literal.\<close>

fun string_of_nat :: "nat \<Rightarrow> string" where
  "string_of_nat n =
     (if n < 10 then [''0123456789'' ! n]
      else string_of_nat (n div 10) @ [''0123456789'' ! (n mod 10)])"

declare string_of_nat.simps [simp del]

text \<open>
  \<open>Array.prototype.findIndex\<close>: the index of the first element satisfying the predicate,
  \<open>-1\<close> when there is none.
\<close>

fun findIndex :: "('a \<Rightarrow> bool) \<Rightarrow> 'a list \<Rightarrow> int" where
  "findIndex P [] = - 1"
| "findIndex P (x # xs) =
     (if P x then 0
      else (let i = findIndex P xs in if i = - 1 then - 1 else i + 1))"


section \<open>Vocabulary translation tables (controllers/orders.ts)\<close>

text \<open>\<open>paymentMethodMap\<close> of \<open>createOrder\<close>: customer vocabulary to shared vocabulary.\<close>

definition paymentMethodMap_createOrder :: "(string \<times> string) list" where
  "paymentMethodMap_createOrder = [(''cod'', ''CASH''), (''razorpay'', ''ONLINE'')]"

text \<open>\<open>paymentMethodMap[paymentMethod] || 'OTHER'\<close>\<close>

definition createOrder_paymentMethod :: "string \<Rightarrow> js_value" where
  "createOrder_paymentMethod paymentMethod =
     js_index_or paymentMethodMap_createOrder paymentMethod ''OTHER''"

definition paymentStatusMap_createOrder :: "(string \<times> string) list" where
  "paymentStatusMap_createOrder =
     [(''pending'', ''PENDING''), (''paid'', ''PAID''), (''failed'', ''FAILED''),
      (''refunded'', ''REFUNDED'')]"

text \<open>\<open>paymentStatusMap[paymentMethod === "cod" ? "pending" : "paid"] || 'PENDING'\<close>\<close>

definition createOrder_paymentStatus :: "string \<Rightarrow> js_value" where
  "createOrder_paymentStatus paymentMethod =
     js_index_or paymentStatusMap_createOrder
       (if paymentMethod = ''cod'' then ''pending'' else ''paid'') ''PENDING''"

text \<open>
  The three tables of \<open>getOrders\<close>; \<open>getOrder\<close> declares the same three literals again
  and indexes them in the same way.
\<close>

definition statusMap :: "(string \<times> string) list" where
  "statusMap =
     [(''PLACED'', ''placed''), (''PROCESSING'', ''processing''), (''PACKED'', ''processing''),
      (''OUT_FOR_DELIVERY'', ''shipped''), (''DELIVERED'', ''delivered''),
      (''CANCELLED'', ''cancelled'')]"

definition paymentMethodMap_getOrders :: "(string \<times> string) list" where
  "paymentMethodMap_getOrders =
     [(''CASH'', ''cod''), (''CARD'', ''card''), (''ONLINE'', ''razorpay''),
      (''OTHER'', ''other'')]"

definition paymentStatusMap_getOrders :: "(string \<times> string) list" where
  "paymentStatusMap_getOrders =
     [(''PENDING'', ''pending''), (''PAID'', ''paid''), (''FAILED'', ''failed''),
      (''REFUNDED'', ''refunded'')]"

text \<open>\<open>statusMap[orderObj.status] || 'placed'\<close>\<close>

definition getOrders_orderStatus :: "string \<Rightarrow> js_value" where
  "getOrders_orderStatus status = js_index_or statusMap status ''placed''"

definition getOrder_orderStatus :: "string \<Rightarrow> js_value" where
  "getOrder_orderStatus status = js_index_or statusMap status ''placed''"

text \<open>\<open>paymentMethodMap[orderObj.paymentMethod] || 'other'\<close>\<close>

definition getOrders_paymentMethod :: "string \<Rightarrow> js_value" where
  "getOrders_paymentMethod paymentMethod =
     js_index_or paymentMethodMap_getOrders paymentMethod ''other''"

text \<open>\<open>paymentStatusMap[orderObj.paymentStatus] || 'pending'\<close>\<close>

definition getOrders_paymentStatus :: "string \<Rightarrow> js_value" where
  "getOrders_paymentStatus paymentStatus =
     js_index_or paymentStatusMap_getOrders paymentStatus ''pending''"

text \<open>
  Modelled from the spec: the customer-to-shared order-status table. The source has no
  such translation (\<open>createOrder\<close> writes the constant \<open>'PLACED'\<close> and no controller
  updates an order's status); the table below is the left-to-right reading of the
  order-status table of the specification, with \<open>processing\<close> going to \<open>PROCESSING\<close>
  as its testable properties say.
\<close>

definition toSharedOrderStatus :: "string \<Rightarrow> string option" where
  "toSharedOrderStatus status =
     map_of [(''placed'', ''PLACED''), (''processing'', ''PROCESSING''),
             (''shipped'', ''OUT_FOR_DELIVERY''), (''delivered'', ''DELIVERED''),
             (''cancelled'', ''CANCELLED'')] status"


section \<open>Data model (models/)\<close>

text \<open>
  The product schema of the catalog store. \<open>stockQuantity\<close> is the schema's virtual:
  its getter returns \<open>this.stock\<close>.
\<close>

datatype product_status = ACTIVE | INACTIVE | UNAVAILABLE

record product =
  p_id :: objectId
  p_name :: string
  p_price :: number
  p_stock :: number
  p_images :: "string list"
  p_status :: product_status

definition stockQuantity :: "product \<Rightarrow> number" where
  "stockQuantity p = p_stock p"

text \<open>\<open>ICartItem\<close>; a cart document is its owner (the key in the store) and its items.\<close>

record cart_item =
  ci_product :: objectId
  ci_quantity :: number

record address =
  a_id :: objectId
  a_user :: objectId
  a_addressLine1 :: string
  a_city :: string
  a_state :: string
  a_pincode :: string

text \<open>\<open>IAdminOrderItem\<close> and \<open>IAdminOrder\<close>, the document written to the shared store.\<close>

record admin_order_item =
  ai_product :: objectId
  ai_name :: string
  ai_quantity :: number
  ai_price :: number
  ai_subtotal :: number

record shipping_address =
  sa_street :: string
  sa_city :: string
  sa_state :: string
  sa_zipCode :: string
  sa_country :: string

record admin_order =
  o_orderNumber :: string
  o_customer :: objectId
  o_items :: "admin_order_item list"
  o_subtotal :: number
  o_tax :: number
  o_shipping :: number
  o_total :: number
  o_status :: string
  o_paymentMethod :: js_value
  o_paymentStatus :: js_value
  o_shippingAddress :: shipping_address

text \<open>
  The three stores: carts and addresses in the customer database, products and orders
  behind the admin connection. The cart collection has a unique index on \<open>user\<close>, so
  it is a map from the owner to the items of the owner's cart.
\<close>

record db =
  carts :: "objectId \<rightharpoonup> cart_item list"
  addresses :: "address list"
  products :: "product list"
  orders :: "admin_order list"

text \<open>
  What a request reads from outside the stores: whether the query of an awaited database
  call rejects (with the message of the error), the state of \<open>adminDbConnection\<close>
  (\<open>None\<close> for \<open>null\<close>, otherwise its \<open>readyState\<close>), whether the module
  variable \<open>ProductModel\<close> of the product model already holds the model,
  \<open>Date.now()\<close> and \<open>Math.random().toString(36)\<close>.
\<close>

datatype db_call =
  CartFindOne | CartCreate | CartSave | AddressFindOne | ProductFind
  | ProductFindById | AdminOrderCreate

record env =
  db_rejects :: "db_call \<Rightarrow> string option"
  adminDbConnection :: "nat option"
  ProductModel :: bool
  now :: nat
  random36 :: string

text \<open>
  \<open>getProductModel\<close>, through which the proxy exported by the product model reaches
  the model: the cached model if there is one, a model created on the admin connection if
  the connection is ready, and otherwise the error thrown (its message).
\<close>

definition getProductModel :: "env \<Rightarrow> string option" where
  "getProductModel e =
     (if ProductModel e then None
      else if adminDbConnection e = Some 1 then None
      else Some (''Product model: Admin database connection not established. '' @
                 ''Ensure connectAdminDB() is called in server.ts before using Product model.''))"

text \<open>
  An awaited call ends in the \<open>catch\<close> of its handler when the expression throws: for
  \<open>Product.find\<close> and \<open>Product.findById\<close> when the proxy throws, before any query
  is issued, and for every call when its query rejects.
\<close>

definition rejects :: "env \<Rightarrow> db_call \<Rightarrow> string option" where
  "rejects e call =
     (if call = ProductFind \<or> call = ProductFindById
      then (case getProductModel e of
              Some message \<Rightarrow> Some message
            | None \<Rightarrow> db_rejects e call)
      else db_rejects e call)"

text \<open>
  \<open>res.status(code).json({ success: false, error })\<close> and
  \<open>res.status(code).json({ success: true, ... })\<close>.
\<close>

datatype 'a response = Failure nat string | Success nat 'a


section \<open>Queries and writes\<close>

text \<open>\<open>Product.find({ _id: { $in: productIds }, status: "ACTIVE" })\<close>\<close>

definition Product_find_ACTIVE :: "db \<Rightarrow> objectId list \<Rightarrow> product list" where
  "Product_find_ACTIVE s productIds =
     filter (\<lambda>p. p_id p \<in> set productIds \<and> p_status p = ACTIVE) (products s)"

text \<open>
  \<open>Product.findById(productId)\<close>: the string is cast to an id; there is no condition
  on the status.
\<close>

definition Product_findById :: "db \<Rightarrow> string \<Rightarrow> product option" where
  "Product_findById s productId =
     find (\<lambda>p. p_id p = ObjectId_toString productId) (products s)"

text \<open>
  \<open>Address.findOne({ _id: addressId, user })\<close>: the string of the request is cast to
  an id; \<open>user\<close> is the id of the authenticated customer.
\<close>

definition Address_findOne_of :: "db \<Rightarrow> string \<Rightarrow> objectId \<Rightarrow> address option" where
  "Address_findOne_of s addressId user =
     find (\<lambda>a. a_id a = ObjectId_toString addressId \<and> a_user a = user) (addresses s)"

text \<open>
  \<open>const productMap = new Map(); products.forEach(p => productMap.set(p._id.toString(), p))\<close>
\<close>

definition productMap_of :: "product list \<Rightarrow> (objectId \<rightharpoonup> product)" where
  "productMap_of ps = foldl (\<lambda>m p. m(p_id p \<mapsto> p)) Map.empty ps"

text \<open>\<open>product.stock || product.stockQuantity || 0\<close>\<close>

definition availableStock_of :: "product \<Rightarrow> number" where
  "availableStock_of p = js_or_num (js_or_num (p_stock p) (stockQuantity p)) 0"

text \<open>
  The cart schema validates \<open>quantity\<close> with \<open>min: 1\<close>; Mongoose validates the document
  on \<open>create\<close> and on \<open>save\<close> and rejects when a validator fails.
\<close>

definition Cart_valid :: "cart_item list \<Rightarrow> bool" where
  "Cart_valid items = list_all (\<lambda>item. 1 \<le> ci_quantity item) items"

definition Cart_create_doc :: "env \<Rightarrow> db \<Rightarrow> objectId \<Rightarrow> cart_item list \<Rightarrow> string + db" where
  "Cart_create_doc e s user items =
     (case rejects e CartCreate of
        Some msg \<Rightarrow> Inl msg
      | None \<Rightarrow>
          if \<not> Cart_valid items then Inl ''Cart validation failed''
          else Inr (s\<lparr>carts := (carts s)(user \<mapsto> items)\<rparr>))"

definition Cart_save_doc :: "env \<Rightarrow> db \<Rightarrow> objectId \<Rightarrow> cart_item list \<Rightarrow> string + db" where
  "Cart_save_doc e s user items =
     (case rejects e CartSave of
        Some msg \<Rightarrow> Inl msg
      | None \<Rightarrow>
          if \<not> Cart_valid items then Inl ''Cart validation failed''
          else Inr (s\<lparr>carts := (carts s)(user \<mapsto> items)\<rparr>))"

text \<open>
  The order schema: the enumerations of \<open>status\<close>, \<open>paymentMethod\<close> and
  \<open>paymentStatus\<close>, \<open>min: 0\<close> on the amounts, \<open>min: 1\<close> on an item's quantity,
  \<open>required\<close> on the strings (Mongoose rejects an empty required string), and the
  unique index on \<open>orderNumber\<close>.
\<close>

definition AdminOrderItem_valid :: "admin_order_item \<Rightarrow> bool" where
  "AdminOrderItem_valid i \<longleftrightarrow>
     ai_name i \<noteq> [] \<and> 1 \<le> ai_quantity i \<and> 0 \<le> ai_price i \<and> 0 \<le> ai_subtotal i"

definition AdminOrder_valid :: "admin_order \<Rightarrow> bool" where
  "AdminOrder_valid doc \<longleftrightarrow>
     o_orderNumber doc \<noteq> [] \<and>
     list_all AdminOrderItem_valid (o_items doc) \<and>
     0 \<le> o_subtotal doc \<and> 0 \<le> o_tax doc \<and> 0 \<le> o_shipping doc \<and> 0 \<le> o_total doc \<and>
     o_status doc \<in> set [''PLACED'', ''PROCESSING'', ''PACKED'', ''OUT_FOR_DELIVERY'',
                          ''DELIVERED'', ''CANCELLED''] \<and>
     o_paymentMethod doc \<in> set (map JString [''CASH'', ''CARD'', ''ONLINE'', ''OTHER'']) \<and>
     o_paymentStatus doc \<in> set (map JString [''PENDING'', ''PAID'', ''FAILED'', ''REFUNDED''])"

text \<open>
  \<open>AdminOrder.create(doc)\<close> through the model proxy: \<open>getAdminOrderModel\<close> throws
  unless the admin connection is ready; then the document is validated and inserted,
  and the insert is refused when the order number is already in the collection.
\<close>

definition AdminOrder_create_doc :: "env \<Rightarrow> db \<Rightarrow> admin_order \<Rightarrow> string + db" where
  "AdminOrder_create_doc e s doc =
     (if adminDbConnection e \<noteq> Some 1 then Inl ''Admin DB connection not established''
      else case rejects e AdminOrderCreate of
        Some msg \<Rightarrow> Inl msg
      | None \<Rightarrow>
          if \<not> AdminOrder_valid doc then Inl ''Order validation failed''
          else if o_orderNumber doc \<in> set (map o_orderNumber (orders s))
          then Inl ''E11000 duplicate key error''
          else Inr (s\<lparr>orders := orders s @ [doc]\<rparr>))"


section \<open>createOrder (controllers/orders.ts)\<close>

text \<open>The literal \<open>0.18\<close> denotes the binary64 value nearest to it.\<close>

definition TAX_RATE :: number where
  "TAX_RATE = binary64 0.18"

definition DELIVERY_FEE :: number where
  "DELIVERY_FEE = 50"

record order_body =
  req_addressId :: string
  req_paymentMethod :: string
  req_razorpayOrderId :: string
  req_razorpayPaymentId :: string

text \<open>The entries of \<open>orderItems\<close>; \<open>image\<close> is \<open>product.images?.[0]\<close>.\<close>

record order_item =
  oi_product :: objectId
  oi_name :: string
  oi_price :: number
  oi_quantity :: number
  oi_image :: "string option"

text \<open>
  \<open>orderResponse\<close>, without the fields the database generates (\<open>_id\<close>,
  \<open>createdAt\<close>, \<open>updatedAt\<close>).
\<close>

record order_response =
  r_orderNumber :: string
  r_customerId :: objectId
  r_items :: "order_item list"
  r_subtotal :: number
  r_tax :: number
  r_deliveryFee :: number
  r_total :: number
  r_address :: address
  r_paymentMethod :: string
  r_paymentStatus :: string
  r_orderStatus :: string

text \<open>
  Both \<open>catch\<close> blocks answer
  \<open>res.status(500).json({ error: error.message || 'Failed to create order. Please try again.' })\<close>.
\<close>

definition createOrder_catch :: "string \<Rightarrow> 'a response" where
  "createOrder_catch message =
     Failure 500 (if message = [] then ''Failed to create order. Please try again.''
                  else message)"

text \<open>The object pushed to \<open>orderItems\<close> for an item and its product.\<close>

definition createOrder_orderItem :: "product \<Rightarrow> cart_item \<Rightarrow> order_item" where
  "createOrder_orderItem product item =
     \<lparr>oi_product = p_id product, oi_name = p_name product, oi_price = p_price product,
      oi_quantity = ci_quantity item,
      oi_image = (case p_images product of [] \<Rightarrow> None | img # _ \<Rightarrow> Some img)\<rparr>"

text \<open>
  The loop \<open>for (const item of cartObj.items)\<close>: it returns from the handler at the
  first item whose product is not in \<open>productMap\<close> or whose stock is short, and
  otherwise accumulates \<open>subtotal\<close> and \<open>orderItems\<close>.
\<close>

fun createOrder_loop ::
  "(objectId \<rightharpoonup> product) \<Rightarrow> cart_item list \<Rightarrow> number \<Rightarrow> order_item list
     \<Rightarrow> order_response response + (number \<times> order_item list)" where
  "createOrder_loop productMap [] subtotal orderItems = Inr (subtotal, orderItems)"
| "createOrder_loop productMap (item # rest) subtotal orderItems =
     (case productMap (ci_product item) of
        None \<Rightarrow> Inl (Failure 400 ''Product not found for item in cart'')
      | Some product \<Rightarrow>
          (let availableStock = availableStock_of product in
           if availableStock < ci_quantity item
           then Inl (Failure 400 (''Insufficient stock for '' @ p_name product))
           else (let itemTotal = binary64 (p_price product * ci_quantity item) in
                 createOrder_loop productMap rest (binary64 (subtotal + itemTotal))
                   (orderItems @ [createOrder_orderItem product item]))))"

text \<open>
  An item passes the loop when its product is in \<open>productMap\<close> and has the stock;
  \<open>createOrder_itemTotal\<close> is the \<open>itemTotal\<close> of the item and
  \<open>createOrder_subtotal\<close> the value that \<open>subtotal += itemTotal\<close> accumulates
  over the items, starting from 0.
\<close>

definition createOrder_line_ok :: "(objectId \<rightharpoonup> product) \<Rightarrow> cart_item \<Rightarrow> bool" where
  "createOrder_line_ok productMap item =
     (case productMap (ci_product item) of
        None \<Rightarrow> False
      | Some product \<Rightarrow> \<not> availableStock_of product < ci_quantity item)"

definition createOrder_itemTotal :: "(objectId \<rightharpoonup> product) \<Rightarrow> cart_item \<Rightarrow> number" where
  "createOrder_itemTotal productMap item =
     (case productMap (ci_product item) of
        None \<Rightarrow> 0
      | Some product \<Rightarrow> binary64 (p_price product * ci_quantity item))"

definition createOrder_subtotal :: "(objectId \<rightharpoonup> product) \<Rightarrow> cart_item list \<Rightarrow> number" where
  "createOrder_subtotal productMap items =
     foldl (\<lambda>subtotal item. binary64 (subtotal + createOrder_itemTotal productMap item)) 0 items"

text \<open>
  The checks that precede the loop: the required fields of the body, the Razorpay
  details, the customer's cart and the address. They read the customer store and
  write nothing; a rejected query is caught by the outer \<open>catch\<close>.
\<close>

definition createOrder_guards ::
  "env \<Rightarrow> db \<Rightarrow> objectId \<Rightarrow> order_body
     \<Rightarrow> order_response response + (cart_item list \<times> address)" where
  "createOrder_guards e s user body =
     (if js_not (req_addressId body) \<or> js_not (req_paymentMethod body)
      then Inl (Failure 400 ''Address and payment method required'')
      else if req_paymentMethod body = ''razorpay'' \<and>
              (js_not (req_razorpayOrderId body) \<or> js_not (req_razorpayPaymentId body))
      then Inl (Failure 400 ''Razorpay payment details required'')
      else case rejects e CartFindOne of
        Some message \<Rightarrow> Inl (createOrder_catch message)
      | None \<Rightarrow>
          (case carts s user of
             None \<Rightarrow> Inl (Failure 400 ''Cart is empty'')
           | Some items \<Rightarrow>
               if length items = 0 then Inl (Failure 400 ''Cart is empty'')
               else case rejects e AddressFindOne of
                 Some message \<Rightarrow> Inl (createOrder_catch message)
               | None \<Rightarrow>
                   (case Address_findOne_of s (req_addressId body) user of
                      None \<Rightarrow> Inl (Failure 404 ''Address not found'')
                    | Some address \<Rightarrow> Inr (items, address))))"

text \<open>
  \<open>productMap\<close> as the handler builds it for the items of a cart: the ACTIVE products
  whose id is among the items' product ids.
\<close>

definition createOrder_productMap :: "db \<Rightarrow> cart_item list \<Rightarrow> (objectId \<rightharpoonup> product)" where
  "createOrder_productMap s items =
     (let productIds = map ci_product items;
          products = Product_find_ACTIVE s productIds
      in productMap_of products)"

text \<open>
  The first part of the handler, up to the end of the loop: the checks above, the
  query of the catalog and the loop over the items. The query goes through the proxy of
  the product model, so it rejects (\<open>rejects e ProductFind\<close>, by \<open>getProductModel\<close>)
  when the model is not cached and the admin connection is not ready; the rejection
  reaches the outer \<open>catch\<close>.
\<close>

definition createOrder_check ::
  "env \<Rightarrow> db \<Rightarrow> objectId \<Rightarrow> order_body
     \<Rightarrow> order_response response + (address \<times> number \<times> order_item list)" where
  "createOrder_check e s user body =
     (case createOrder_guards e s user body of
        Inl r \<Rightarrow> Inl r
      | Inr (items, address) \<Rightarrow>
          (case rejects e ProductFind of
             Some message \<Rightarrow> Inl (createOrder_catch message)
           | None \<Rightarrow>
               (case createOrder_loop (createOrder_productMap s items) items 0 [] of
                  Inl r \<Rightarrow> Inl r
                | Inr (subtotal, orderItems) \<Rightarrow> Inr (address, subtotal, orderItems))))"

text \<open>\<open>tax\<close>, \<open>deliveryFee\<close> and \<open>total\<close> from \<open>subtotal\<close>.\<close>

definition createOrder_totals :: "number \<Rightarrow> number \<times> number \<times> number" where
  "createOrder_totals subtotal =
     (let tax = binary64 (subtotal * TAX_RATE);
          deliveryFee = (if subtotal \<ge> 500 then 0 else DELIVERY_FEE);
          total = binary64 (binary64 (subtotal + tax) + deliveryFee)
      in (tax, deliveryFee, total))"

text \<open>
  \<open>`ORD-${timestamp}-${randomSuffix}`\<close> with
  \<open>randomSuffix = Math.random().toString(36).substr(2, 6).toUpperCase()\<close>; the argument
  \<open>rnd\<close> is the string \<open>Math.random().toString(36)\<close>.
\<close>

definition randomSuffix_of :: "string \<Rightarrow> string" where
  "randomSuffix_of rnd = toUpperCase (substr rnd 2 6)"

definition createOrder_orderNumber :: "nat \<Rightarrow> string \<Rightarrow> string" where
  "createOrder_orderNumber timestamp rnd =
     ''ORD-'' @ string_of_nat timestamp @ ''-'' @ randomSuffix_of rnd"

text \<open>The document handed to \<open>AdminOrder.create\<close>.\<close>

definition createOrder_doc ::
  "env \<Rightarrow> objectId \<Rightarrow> order_body \<Rightarrow> address \<Rightarrow> number \<Rightarrow> order_item list \<Rightarrow> admin_order"
  where
  "createOrder_doc e user body addressObj subtotal orderItems =
     (let (tax, deliveryFee, total) = createOrder_totals subtotal;
          adminOrderItems =
            map (\<lambda>item. \<lparr>ai_product = oi_product item, ai_name = oi_name item,
                          ai_quantity = oi_quantity item, ai_price = oi_price item,
                          ai_subtotal = binary64 (oi_price item * oi_quantity item)\<rparr>)
                orderItems;
          orderNumber = createOrder_orderNumber (now e) (random36 e)
      in \<lparr>o_orderNumber = orderNumber, o_customer = user, o_items = adminOrderItems,
           o_subtotal = subtotal, o_tax = tax, o_shipping = deliveryFee, o_total = total,
           o_status = ''PLACED'',
           o_paymentMethod = createOrder_paymentMethod (req_paymentMethod body),
           o_paymentStatus = createOrder_paymentStatus (req_paymentMethod body),
           o_shippingAddress =
             \<lparr>sa_street = a_addressLine1 addressObj, sa_city = a_city addressObj,
              sa_state = a_state addressObj, sa_zipCode = a_pincode addressObj,
              sa_country = ''India''\<rparr>\<rparr>)"

text \<open>\<open>orderResponse\<close>, built from the created order and from \<open>orderItems\<close>.\<close>

definition createOrder_response ::
  "order_body \<Rightarrow> address \<Rightarrow> order_item list \<Rightarrow> admin_order \<Rightarrow> order_response" where
  "createOrder_response body addressObj orderItems order =
     \<lparr>r_orderNumber = o_orderNumber order, r_customerId = o_customer order,
      r_items =
        map (\<lambda>item. \<lparr>oi_product = ai_product item, oi_name = ai_name item,
                      oi_price = ai_price item, oi_quantity = ai_quantity item,
                      oi_image = (case find (\<lambda>oi. oi_product oi = ai_product item) orderItems of
                                    None \<Rightarrow> None
                                  | Some oi \<Rightarrow> oi_image oi)\<rparr>) (o_items order),
      r_subtotal = o_subtotal order, r_tax = o_tax order, r_deliveryFee = o_shipping order,
      r_total = o_total order, r_address = addressObj,
      r_paymentMethod = req_paymentMethod body,
      r_paymentStatus = (if req_paymentMethod body = ''cod'' then ''pending'' else ''paid''),
      r_orderStatus = toLowerCase (o_status order)\<rparr>"

text \<open>
  The second part of the handler: the readiness check of the admin connection, the
  write of the order, and only then \<open>cart.items = []; await cart.save()\<close>. An error
  thrown by the write or by the save is caught by the inner \<open>catch\<close>.
\<close>

definition createOrder_write ::
  "env \<Rightarrow> db \<Rightarrow> objectId \<Rightarrow> order_body \<Rightarrow> address \<Rightarrow> number \<Rightarrow> order_item list
     \<Rightarrow> order_response response \<times> db" where
  "createOrder_write e s user body addressObj subtotal orderItems =
     (if adminDbConnection e \<noteq> Some 1
      then (Failure 503 ''Service temporarily unavailable. Please try again.'', s)
      else (let doc = createOrder_doc e user body addressObj subtotal orderItems in
            case AdminOrder_create_doc e s doc of
              Inl message \<Rightarrow> (createOrder_catch message, s)
            | Inr s' \<Rightarrow>
                (case Cart_save_doc e s' user [] of
                   Inl message \<Rightarrow> (createOrder_catch message, s')
                 | Inr s'' \<Rightarrow>
                     (Success 201 (createOrder_response body addressObj orderItems doc),
                      s''))))"

definition createOrder ::
  "env \<Rightarrow> db \<Rightarrow> objectId \<Rightarrow> order_body \<Rightarrow> order_response response \<times> db" where
  "createOrder e s user body =
     (case createOrder_check e s user body of
        Inl r \<Rightarrow> (r, s)
      | Inr (addressObj, subtotal, orderItems) \<Rightarrow>
          createOrder_write e s user body addressObj subtotal orderItems)"


section \<open>The cart controller\<close>

text \<open>
  A cart item with its product attached, as \<open>populateCartProducts\<close> returns it. The
  display fields the helper adds to the product object (\<open>stockQuantity\<close>, \<open>slug\<close>)
  are left out.
\<close>

record populated_item =
  pi_product :: product
  pi_quantity :: number

text \<open>
  \<open>populateCartProducts\<close>: an empty cart is returned as it is, with no query;
  otherwise the ACTIVE products are fetched and the items whose product is missing from
  the result are filtered out of the returned cart. The returned cart is not saved.
\<close>

definition populateCartProducts ::
  "env \<Rightarrow> db \<Rightarrow> cart_item list \<Rightarrow> string + populated_item list" where
  "populateCartProducts e s items =
     (if length items = 0 then Inr []
      else case rejects e ProductFind of
        Some message \<Rightarrow> Inl message
      | None \<Rightarrow>
          (let productIds = map ci_product items;
               products = Product_find_ACTIVE s productIds;
               productMap = productMap_of products
           in Inr (List.map_filter
                     (\<lambda>item. case productMap (ci_product item) of
                                None \<Rightarrow> None
                              | Some product \<Rightarrow>
                                  Some \<lparr>pi_product = product, pi_quantity = ci_quantity item\<rparr>)
                     items)))"

text \<open>
  The end of the three mutating handlers:
  \<open>cart = await populateCartProducts(cart); res.json({ success: true, cart })\<close>, with
  the handler's \<open>catch\<close> answering 500 and \<open>error.message\<close>.
\<close>

definition cart_respond ::
  "env \<Rightarrow> db \<Rightarrow> cart_item list \<Rightarrow> populated_item list response \<times> db" where
  "cart_respond e s items =
     (case populateCartProducts e s items of
        Inl message \<Rightarrow> (Failure 500 message, s)
      | Inr cart \<Rightarrow> (Success 200 cart, s))"

text \<open>\<open>await cart.save()\<close> followed by the response.\<close>

definition cart_save_respond ::
  "env \<Rightarrow> db \<Rightarrow> objectId \<Rightarrow> cart_item list \<Rightarrow> populated_item list response \<times> db" where
  "cart_save_respond e s user items =
     (case Cart_save_doc e s user items of
        Inl message \<Rightarrow> (Failure 500 message, s)
      | Inr s' \<Rightarrow> cart_respond e s' items)"

record cart_body =
  req_productId :: string
  req_quantity :: "number option"

text \<open>
  \<open>addToCart\<close>; \<open>const { productId, quantity = 1 } = req.body\<close>. The existing
  item is looked for with \<open>item.product.toString() === productId\<close>, the string of
  the request as it is; the item that is created or pushed stores the id that the string
  is cast to.
\<close>

definition addToCart ::
  "env \<Rightarrow> db \<Rightarrow> objectId \<Rightarrow> cart_body \<Rightarrow> populated_item list response \<times> db" where
  "addToCart e s user body =
     (let productId = req_productId body;
          quantity = (case req_quantity body of None \<Rightarrow> 1 | Some q \<Rightarrow> q)
      in case rejects e ProductFindById of
        Some message \<Rightarrow> (Failure 500 message, s)
      | None \<Rightarrow>
          (case Product_findById s productId of
             None \<Rightarrow> (Failure 404 ''Product not found'', s)
           | Some product \<Rightarrow>
               (let availableStock = availableStock_of product in
                if availableStock < quantity then (Failure 400 ''Insufficient stock'', s)
                else case rejects e CartFindOne of
                  Some message \<Rightarrow> (Failure 500 message, s)
                | None \<Rightarrow>
                    (case carts s user of
                       None \<Rightarrow>
                         (let items = [\<lparr>ci_product = ObjectId_toString productId,
                                        ci_quantity = quantity\<rparr>] in
                          case Cart_create_doc e s user items of
                            Inl message \<Rightarrow> (Failure 500 message, s)
                          | Inr s' \<Rightarrow> cart_respond e s' items)
                     | Some items \<Rightarrow>
                         (let existingItemIndex =
                                findIndex (\<lambda>item. ci_product item = productId) items
                          in if existingItemIndex > - 1
                             then (let i = nat existingItemIndex;
                                       newQuantity = binary64 (ci_quantity (items ! i) + quantity);
                                       availableStock = availableStock_of product
                                   in if newQuantity > availableStock
                                      then (Failure 400 ''Insufficient stock'', s)
                                      else cart_save_respond e s user
                                             (items[i := (items ! i)\<lparr>ci_quantity := newQuantity\<rparr>]))
                             else cart_save_respond e s user
                                    (items @ [\<lparr>ci_product = ObjectId_toString productId,
                                               ci_quantity = quantity\<rparr>]))))))"

text \<open>
  \<open>removeFromCart\<close>; \<open>productId\<close> is the route parameter, compared as it is with
  \<open>item.product.toString()\<close>.
\<close>

definition removeFromCart ::
  "env \<Rightarrow> db \<Rightarrow> objectId \<Rightarrow> string \<Rightarrow> populated_item list response \<times> db" where
  "removeFromCart e s user productId =
     (case rejects e CartFindOne of
        Some message \<Rightarrow> (Failure 500 message, s)
      | None \<Rightarrow>
          (case carts s user of
             None \<Rightarrow> (Failure 404 ''Cart not found'', s)
           | Some items \<Rightarrow>
               cart_save_respond e s user
                 (filter (\<lambda>item. ci_product item \<noteq> productId) items)))"

text \<open>
  \<open>getCart\<close>: the cart is created empty when the customer has none, and the
  populated cart is returned.
\<close>

definition getCart :: "env \<Rightarrow> db \<Rightarrow> objectId \<Rightarrow> populated_item list response \<times> db" where
  "getCart e s user =
     (case rejects e CartFindOne of
        Some message \<Rightarrow> (Failure 500 message, s)
      | None \<Rightarrow>
          (case carts s user of
             None \<Rightarrow>
               (case Cart_create_doc e s user [] of
                  Inl message \<Rightarrow> (Failure 500 message, s)
                | Inr s' \<Rightarrow> cart_respond e s' [])
           | Some items \<Rightarrow> cart_respond e s items))"


section \<open>A small shop, for concrete runs\<close>

definition ex_milk :: product where
  "ex_milk = \<lparr>p_id = ''p1'', p_name = ''Milk'', p_price = 45.5, p_stock = 10,
              p_images = [''milk.png''], p_status = ACTIVE\<rparr>"

definition ex_rice :: product where
  "ex_rice = \<lparr>p_id = ''p2'', p_name = ''Rice'', p_price = 120, p_stock = 3,
              p_images = [], p_status = ACTIVE\<rparr>"

definition ex_soap :: product where
  "ex_soap = \<lparr>p_id = ''p3'', p_name = ''Soap'', p_price = 30, p_stock = 25,
              p_images = [], p_status = INACTIVE\<rparr>"

definition ex_candy :: product where
  "ex_candy = \<lparr>p_id = ''p4'', p_name = ''Candy'', p_price = 5, p_stock = 100,
               p_images = [], p_status = UNAVAILABLE\<rparr>"

definition ex_home :: address where
  "ex_home = \<lparr>a_id = ''a1'', a_user = ''u1'', a_addressLine1 = ''12 Park Road'',
              a_city = ''Pune'', a_state = ''MH'', a_pincode = ''411001''\<rparr>"

text \<open>The shop with customer \<open>u1\<close> holding the given cart; customer \<open>u2\<close> has none.\<close>

definition ex_db :: "cart_item list \<Rightarrow> db" where
  "ex_db cart = \<lparr>carts = [''u1'' \<mapsto> cart], addresses = [ex_home],
                  products = [ex_milk, ex_rice, ex_soap, ex_candy], orders = []\<rparr>"

definition ex_line :: "objectId \<Rightarrow> number \<Rightarrow> cart_item" where
  "ex_line productId qty = \<lparr>ci_product = productId, ci_quantity = qty\<rparr>"

text \<open>No call rejects and the admin connection is connected (\<open>readyState\<close> 1).\<close>

definition ex_env :: env where
  "ex_env = \<lparr>db_rejects = (\<lambda>call. None), adminDbConnection = Some 1,
             ProductModel = False, now = 1700000000000, random36 = ''0.k3j9x2mf7''\<rparr>"

text \<open>
  The same, with the admin connection disconnected (\<open>readyState\<close> 0) and the product
  model not yet created.
\<close>

definition ex_env_not_ready :: env where
  "ex_env_not_ready = \<lparr>db_rejects = (\<lambda>call. None), adminDbConnection = Some 0,
                       ProductModel = False, now = 1700000000000,
                       random36 = ''0.k3j9x2mf7''\<rparr>"

text \<open>The same, with the write of the order rejected.\<close>

definition ex_env_write_fails :: env where
  "ex_env_write_fails =
     \<lparr>db_rejects = (\<lambda>call. if call = AdminOrderCreate then Some ''write failed'' else None),
      adminDbConnection = Some 1, ProductModel = False, now = 1700000000000,
      random36 = ''0.k3j9x2mf7''\<rparr>"

definition ex_cod :: order_body where
  "ex_cod = \<lparr>req_addressId = ''a1'', req_paymentMethod = ''cod'', req_razorpayOrderId = [],
             req_razorpayPaymentId = []\<rparr>"


text \<open>
  A product with a 24-digit id, the shop that has this product alone, and an order that
  the shared store may already hold.
\<close>

definition ex_tea :: product where
  "ex_tea = \<lparr>p_id = ''64b7f3a2c9e1d4a5b6c7d8e9'', p_name = ''Tea'', p_price = 250,
             p_stock = 10, p_images = [], p_status = ACTIVE\<rparr>"

definition ex_tea_db :: "cart_item list \<Rightarrow> db" where
  "ex_tea_db cart = \<lparr>carts = [''u1'' \<mapsto> cart], addresses = [ex_home],
                      products = [ex_tea], orders = []\<rparr>"

definition ex_order :: admin_order where
  "ex_order =
     \<lparr>o_orderNumber = ''ORD-1700000000000-K3J9X2'', o_customer = ''u7'', o_items = [],
      o_subtotal = 0, o_tax = 0, o_shipping = 50, o_total = 50, o_status = ''PLACED'',
      o_paymentMethod = JString ''CASH'', o_paymentStatus = JString ''PENDING'',
      o_shippingAddress = \<lparr>sa_street = [], sa_city = [], sa_state = [], sa_zipCode = [],
                            sa_country = ''India''\<rparr>\<rparr>"

text \<open>The body of \<open>POST cart/items\<close> for a product and a quantity.\<close>

definition ex_add :: "string \<Rightarrow> number \<Rightarrow> cart_body" where
  "ex_add productId qty = \<lparr>req_productId = productId, req_quantity = Some qty\<rparr>"


section \<open>Properties of the translation tables\<close>

lemma createOrder_paymentMethod_cases:
  "createOrder_paymentMethod pm =
     (if pm = ''cod'' then JString ''CASH''
      else if pm = ''razorpay'' then JString ''ONLINE''
      else if pm \<in> set Object_prototype_props then JNonString
      else JString ''OTHER'')"
  by (simp add: createOrder_paymentMethod_def js_index_or_def js_index_def
      paymentMethodMap_createOrder_def Object_prototype_props_def)

text \<open>
  C3, as stated, fails on \<open>card\<close>: the table of \<open>createOrder\<close> has the two keys
  \<open>cod\<close> and \<open>razorpay\<close> only, so \<open>card\<close> takes the default \<open>OTHER\<close> and not
  \<open>CARD\<close>.
\<close>

theorem C3_card_maps_to_OTHER:
  "createOrder_paymentMethod ''card'' = JString ''OTHER'' \<and>
   createOrder_paymentMethod ''card'' \<noteq> JString ''CARD''"
  by (simp add: createOrder_paymentMethod_cases Object_prototype_props_def)

text \<open>
  C3 (amended): the customer-to-shared payment-method translation of \<open>createOrder\<close>
  sends \<open>cod\<close> to \<open>CASH\<close> and \<open>razorpay\<close> to \<open>ONLINE\<close>; every other string,
  \<open>card\<close> included, goes to \<open>OTHER\<close>, except the names of the properties of
  \<open>Object.prototype\<close>, for which the lookup yields an inherited non-string value.
  The table of \<open>getOrders\<close> and \<open>getOrder\<close> sends \<open>CASH\<close>, \<open>ONLINE\<close>, \<open>CARD\<close>
  and \<open>OTHER\<close> to \<open>cod\<close>, \<open>razorpay\<close>, \<open>card\<close> and \<open>other\<close>, so that
  \<open>cod\<close> and \<open>razorpay\<close> come back unchanged from the round trip.
\<close>

theorem C3_payment_method_translation:
  "createOrder_paymentMethod ''cod'' = JString ''CASH'' \<and>
   createOrder_paymentMethod ''razorpay'' = JString ''ONLINE'' \<and>
   (pm \<noteq> ''cod'' \<and> pm \<noteq> ''razorpay'' \<and> pm \<notin> set Object_prototype_props
      \<longrightarrow> createOrder_paymentMethod pm = JString ''OTHER'') \<and>
   (pm \<in> set Object_prototype_props \<longrightarrow> createOrder_paymentMethod pm = JNonString) \<and>
   getOrders_paymentMethod ''CASH'' = JString ''cod'' \<and>
   getOrders_paymentMethod ''ONLINE'' = JString ''razorpay'' \<and>
   getOrders_paymentMethod ''CARD'' = JString ''card'' \<and>
   getOrders_paymentMethod ''OTHER'' = JString ''other''"
proof -
  have table: "getOrders_paymentMethod ''CASH'' = JString ''cod''"
    "getOrders_paymentMethod ''ONLINE'' = JString ''razorpay''"
    "getOrders_paymentMethod ''CARD'' = JString ''card''"
    "getOrders_paymentMethod ''OTHER'' = JString ''other''"
    by (simp_all add: getOrders_paymentMethod_def js_index_or_def js_index_def
        paymentMethodMap_getOrders_def)
  have proto: "pm \<in> set Object_prototype_props \<Longrightarrow> pm \<noteq> ''cod'' \<and> pm \<noteq> ''razorpay''"
    by (auto simp: Object_prototype_props_def)
  show ?thesis
    using table proto by (simp add: createOrder_paymentMethod_cases)
qed

text \<open>The amended C3 at \<open>card\<close>, at an unknown method and at an inherited property name.\<close>

theorem C3_payment_method_translation_witness:
  "createOrder_paymentMethod ''card'' = JString ''OTHER'' \<and>
   createOrder_paymentMethod ''upi'' = JString ''OTHER'' \<and>
   createOrder_paymentMethod ''toString'' = JNonString"
  using C3_payment_method_translation [of "''card''"]
    C3_payment_method_translation [of "''upi''"]
    C3_payment_method_translation [of "''toString''"]
  by (simp add: Object_prototype_props_def)

text \<open>
  C5: the shared-to-customer order-status table of \<open>getOrders\<close> and \<open>getOrder\<close> sends
  both \<open>PACKED\<close> and \<open>PROCESSING\<close> to \<open>processing\<close>; the customer-to-shared table
  sends \<open>processing\<close> to \<open>PROCESSING\<close>, so the round trip from \<open>PACKED\<close> does not
  come back to \<open>PACKED\<close>. Whatever the way back is, it cannot restore both
  \<open>PACKED\<close> and \<open>PROCESSING\<close>.
\<close>

theorem C5_order_status_translation:
  "getOrders_orderStatus ''PACKED'' = JString ''processing'' \<and>
   getOrders_orderStatus ''PROCESSING'' = JString ''processing'' \<and>
   getOrder_orderStatus ''PACKED'' = JString ''processing'' \<and>
   getOrder_orderStatus ''PROCESSING'' = JString ''processing'' \<and>
   toSharedOrderStatus ''processing'' = Some ''PROCESSING'' \<and>
   toSharedOrderStatus ''processing'' \<noteq> Some ''PACKED'' \<and>
   (\<forall>inv. \<not> (inv (getOrders_orderStatus ''PACKED'') = ''PACKED'' \<and>
              inv (getOrders_orderStatus ''PROCESSING'') = ''PROCESSING''))"
  by (simp add: getOrders_orderStatus_def getOrder_orderStatus_def js_index_or_def
      js_index_def statusMap_def toSharedOrderStatus_def)


section \<open>Properties of the rounding to binary64\<close>

lemma bitlen_nonneg: "0 \<le> bitlen n"
  by (induction n rule: bitlen.induct) (simp add: bitlen.simps)

lemma bitlen_upper: "n < 2 ^ nat (bitlen n)"
proof (induction n rule: bitlen.induct)
  case (1 n)
  show ?case
  proof (cases "n \<le> 0")
    case True
    then show ?thesis by (simp add: bitlen.simps)
  next
    case False
    with "1.IH" have ih: "n div 2 < 2 ^ nat (bitlen (n div 2))" by simp
    from False have b: "bitlen n = 1 + bitlen (n div 2)" by (simp add: bitlen.simps)
    have "nat (1 + bitlen (n div 2)) = Suc (nat (bitlen (n div 2)))"
      using bitlen_nonneg [of "n div 2"] by simp
    with b have "(2::int) ^ nat (bitlen n) = 2 * 2 ^ nat (bitlen (n div 2))" by simp
    with ih show ?thesis by linarith
  qed
qed

lemma bitlen_lower: "0 < n \<Longrightarrow> 2 ^ nat (bitlen n - 1) \<le> n"
proof (induction n rule: bitlen.induct)
  case (1 n)
  from "1.prems" have b: "bitlen n = 1 + bitlen (n div 2)" by (simp add: bitlen.simps)
  show ?case
  proof (cases "n div 2 \<le> 0")
    case True
    then have "bitlen (n div 2) = 0" by (simp add: bitlen.simps)
    with b "1.prems" show ?thesis by simp
  next
    case False
    with "1.IH" "1.prems" have ih: "2 ^ nat (bitlen (n div 2) - 1) \<le> n div 2" by simp
    from False have "bitlen (n div 2) = 1 + bitlen (n div 2 div 2)" by (simp add: bitlen.simps)
    with bitlen_nonneg [of "n div 2 div 2"] have pos: "1 \<le> bitlen (n div 2)" by simp
    then have "nat (bitlen (n div 2)) = Suc (nat (bitlen (n div 2) - 1))" by simp
    with b have "(2::int) ^ nat (bitlen n - 1) = 2 * 2 ^ nat (bitlen (n div 2) - 1)" by simp
    with ih show ?thesis by linarith
  qed
qed

lemma pow2_pos: "0 < pow2 k"
  by (simp add: pow2_def)

lemma pow2_powi: "pow2 k = 2 powi k"
  by (simp add: pow2_def power_int_def power_inverse field_simps)

lemma pow2_diff: "pow2 (k - j) = pow2 k / pow2 j"
  by (simp add: pow2_powi power_int_diff)

lemma ilog2_lower:
  assumes "0 < x"
  shows "pow2 (ilog2 x) \<le> x"
proof (cases "1 \<le> x")
  case True
  then have pos: "0 < \<lfloor>x\<rfloor>" by linarith
  from bitlen_lower [OF pos] have "rat_of_int (2 ^ nat (bitlen \<lfloor>x\<rfloor> - 1)) \<le> of_int \<lfloor>x\<rfloor>"
    by (simp only: of_int_le_iff)
  also have "\<dots> \<le> x" by simp
  finally have "2 ^ nat (bitlen \<lfloor>x\<rfloor> - 1) \<le> x" by simp
  moreover from pos have "1 \<le> bitlen \<lfloor>x\<rfloor>"
    using bitlen_nonneg [of "\<lfloor>x\<rfloor> div 2"] by (simp add: bitlen.simps)
  ultimately show ?thesis using True by (simp add: ilog2_def pow2_def)
next
  case False
  let ?n = "\<lceil>1 / x\<rceil> - 1"
  let ?m = "bitlen ?n"
  have "1 / x \<le> of_int \<lceil>1 / x\<rceil>" by simp
  also have "\<dots> = rat_of_int (?n + 1)" by simp
  also have "\<dots> \<le> rat_of_int (2 ^ nat ?m)"
    using bitlen_upper [of ?n] by (simp only: of_int_le_iff)
  finally have "1 / x \<le> 2 ^ nat ?m" by simp
  with assms have "1 / 2 ^ nat ?m \<le> x"
    by (simp add: field_simps)
  moreover have "pow2 (- ?m) = 1 / 2 ^ nat ?m"
    using bitlen_nonneg [of ?n] by (cases "?m = 0") (simp_all add: pow2_def)
  ultimately show ?thesis using False by (simp add: ilog2_def)
qed

lemma round_half_even_error: "\<bar>of_int (round_half_even y) - y\<bar> \<le> 1 / 2"
proof -
  have "of_int \<lfloor>y\<rfloor> \<le> y" "y < of_int \<lfloor>y\<rfloor> + 1" by linarith+
  then show ?thesis
    by (auto simp: round_half_even_def Let_def abs_le_iff)
qed

lemma binary64_error: "\<bar>binary64 x - x\<bar> \<le> \<bar>x\<bar> / 2 ^ 53 + 1 / 2 ^ 1075"
proof (cases "x = 0")
  case True
  then show ?thesis by (simp add: binary64_def)
next
  case False
  let ?e = "max (ilog2 \<bar>x\<bar>) (- 1022) - 52"
  let ?ulp = "pow2 ?e"
  from False have fl: "binary64 x = of_int (round_half_even (x / ?ulp)) * ?ulp"
    by (simp add: binary64_def Let_def)
  have ulp: "0 < ?ulp" by (rule pow2_pos)
  have "binary64 x - x = (of_int (round_half_even (x / ?ulp)) - x / ?ulp) * ?ulp"
    using ulp by (simp add: fl field_simps)
  then have "\<bar>binary64 x - x\<bar> = \<bar>of_int (round_half_even (x / ?ulp)) - x / ?ulp\<bar> * ?ulp"
    using ulp by (simp add: abs_mult)
  also have "\<dots> \<le> 1 / 2 * ?ulp"
    using round_half_even_error [of "x / ?ulp"] ulp by (simp add: mult_right_mono)
  finally have half: "\<bar>binary64 x - x\<bar> \<le> ?ulp / 2" by simp
  have "?ulp \<le> \<bar>x\<bar> / 2 ^ 52 + 1 / 2 ^ 1074"
  proof (cases "- 1022 \<le> ilog2 \<bar>x\<bar>")
    case True
    then have "?ulp = pow2 (ilog2 \<bar>x\<bar>) / pow2 52" by (simp add: pow2_diff max_def)
    also have "\<dots> \<le> \<bar>x\<bar> / pow2 52"
      using ilog2_lower [of "\<bar>x\<bar>"] False pow2_pos [of 52] by (simp add: divide_right_mono)
    also have "pow2 52 = 2 ^ 52" by (simp add: pow2_def)
    finally show ?thesis by (simp add: add_increasing2)
  next
    case False
    then have "?ulp = pow2 (- 1074)" by (simp add: max_def)
    also have "\<dots> = 1 / 2 ^ 1074" by (simp add: pow2_def)
    finally show ?thesis by simp
  qed
  with half show ?thesis by simp
qed


section \<open>Properties of the loop and of the price computation\<close>

lemma availableStock_of_stock [simp]: "availableStock_of p = p_stock p"
  by (simp add: availableStock_of_def js_or_num_def stockQuantity_def)

lemma createOrder_loop_Cons_Inr:
  assumes "createOrder_loop pm (item # rest) sub acc = Inr res"
  obtains p where "pm (ci_product item) = Some p" "\<not> p_stock p < ci_quantity item"
    "createOrder_loop pm rest (binary64 (sub + binary64 (p_price p * ci_quantity item)))
       (acc @ [createOrder_orderItem p item]) = Inr res"
  using assms by (auto simp: Let_def split: option.splits if_splits)

lemma createOrder_loop_subtotal:
  "createOrder_loop pm items sub acc = Inr (sub', acc') \<Longrightarrow>
     sub' = foldl (\<lambda>subtotal item. binary64 (subtotal + createOrder_itemTotal pm item)) sub items"
proof (induction items arbitrary: sub acc)
  case Nil
  then show ?case by simp
next
  case (Cons item rest)
  from Cons.prems obtain p where p: "pm (ci_product item) = Some p"
    and step: "createOrder_loop pm rest (binary64 (sub + binary64 (p_price p * ci_quantity item)))
       (acc @ [createOrder_orderItem p item]) = Inr (sub', acc')"
    by (rule createOrder_loop_Cons_Inr)
  from Cons.IH [OF step] p show ?case
    by (simp add: createOrder_itemTotal_def)
qed

lemma createOrder_loop_ok:
  "createOrder_loop pm items sub acc = Inr res \<Longrightarrow>
     list_all (createOrder_line_ok pm) items"
proof (induction items arbitrary: sub acc)
  case Nil
  then show ?case by simp
next
  case (Cons item rest)
  from Cons.prems obtain p where p: "pm (ci_product item) = Some p"
    "\<not> p_stock p < ci_quantity item"
    and step: "createOrder_loop pm rest (binary64 (sub + binary64 (p_price p * ci_quantity item)))
       (acc @ [createOrder_orderItem p item]) = Inr res"
    by (rule createOrder_loop_Cons_Inr)
  from Cons.IH [OF step] p show ?case
    by (simp add: createOrder_line_ok_def)
qed

lemma createOrder_loop_total:
  "list_all (createOrder_line_ok pm) items \<Longrightarrow>
     \<exists>res. createOrder_loop pm items sub acc = Inr res"
proof (induction items arbitrary: sub acc)
  case Nil
  then show ?case by simp
next
  case (Cons item rest)
  from Cons.prems have item: "createOrder_line_ok pm item"
    and rest: "list_all (createOrder_line_ok pm) rest" by simp_all
  from item obtain p where p: "pm (ci_product item) = Some p"
    "\<not> p_stock p < ci_quantity item"
    by (auto simp: createOrder_line_ok_def split: option.splits)
  from Cons.IH [OF rest] p show ?case by (simp add: Let_def)
qed

lemma createOrder_loop_items:
  "createOrder_loop pm items sub acc = Inr (sub', acc') \<Longrightarrow> oi \<in> set acc' \<Longrightarrow>
     oi \<in> set acc \<or>
     (\<exists>item\<in>set items. \<exists>p. pm (ci_product item) = Some p \<and>
        oi = createOrder_orderItem p item)"
proof (induction items arbitrary: sub acc)
  case Nil
  then show ?case by simp
next
  case (Cons item rest)
  from Cons.prems(1) obtain p where p: "pm (ci_product item) = Some p"
    and step: "createOrder_loop pm rest (binary64 (sub + binary64 (p_price p * ci_quantity item)))
       (acc @ [createOrder_orderItem p item]) = Inr (sub', acc')"
    by (rule createOrder_loop_Cons_Inr)
  from Cons.IH [OF step Cons.prems(2)] p show ?case by auto
qed

lemma createOrder_loop_prefix:
  "list_all (createOrder_line_ok pm) pre \<Longrightarrow>
   \<exists>sub' acc'. createOrder_loop pm (pre @ rest) sub acc = createOrder_loop pm rest sub' acc'"
proof (induction pre arbitrary: sub acc)
  case Nil
  show ?case by (simp, blast)
next
  case (Cons item pre)
  from Cons.prems have item: "createOrder_line_ok pm item"
    and pre: "list_all (createOrder_line_ok pm) pre" by simp_all
  from item obtain p where p: "pm (ci_product item) = Some p"
    "\<not> p_stock p < ci_quantity item"
    by (auto simp: createOrder_line_ok_def split: option.splits)
  from Cons.IH [OF pre] p show ?case by (simp add: Let_def)
qed

lemma createOrder_loop_Inl:
  "createOrder_loop pm items sub acc = Inl r \<Longrightarrow> \<exists>msg. r = Failure 400 msg"
proof (induction items arbitrary: sub acc)
  case Nil
  then show ?case by simp
next
  case (Cons item rest)
  show ?case
  proof (cases "pm (ci_product item)")
    case None
    with Cons.prems show ?thesis by auto
  next
    case (Some p)
    show ?thesis
    proof (cases "p_stock p < ci_quantity item")
      case True
      with Some Cons.prems show ?thesis by auto
    next
      case False
      with Some Cons.prems have
        "createOrder_loop pm rest (binary64 (sub + binary64 (p_price p * ci_quantity item)))
           (acc @ [createOrder_orderItem p item]) = Inl r"
        by (simp add: Let_def)
      then show ?thesis by (rule Cons.IH)
    qed
  qed
qed

lemma TAX_RATE_value: "TAX_RATE = 3242591731706757 / 18014398509481984"
  unfolding TAX_RATE_def by code_simp

lemma createOrder_totals_eq:
  "createOrder_totals subtotal =
     (binary64 (subtotal * binary64 0.18), (if subtotal \<ge> 500 then 0 else 50),
      binary64 (binary64 (subtotal + binary64 (subtotal * binary64 0.18))
                + (if subtotal \<ge> 500 then 0 else 50)))"
  by (simp add: createOrder_totals_def TAX_RATE_def DELIVERY_FEE_def Let_def)

lemma createOrder_tax_error:
  "\<bar>binary64 (s * binary64 0.18) - s * 18 / 100\<bar> \<le> \<bar>s\<bar> / 2 ^ 54 + 1 / 2 ^ 1075"
proof -
  let ?c = "3242591731706757 / 18014398509481984 :: rat"
  have c: "binary64 0.18 = ?c" using TAX_RATE_value by (simp add: TAX_RATE_def)
  have "\<bar>binary64 (s * ?c) - s * ?c\<bar> \<le> \<bar>s * ?c\<bar> / 2 ^ 53 + 1 / 2 ^ 1075"
    by (rule binary64_error)
  moreover have "\<bar>s * ?c\<bar> / 2 ^ 53 = \<bar>s\<bar> * (?c / 2 ^ 53)" by (simp add: abs_mult)
  moreover have "\<bar>s * ?c - s * 18 / 100\<bar> = \<bar>s\<bar> * \<bar>?c - 18 / 100\<bar>"
    by (simp add: abs_mult [symmetric] algebra_simps)
  moreover have "\<bar>s\<bar> * (?c / 2 ^ 53) + \<bar>s\<bar> * \<bar>?c - 18 / 100\<bar> \<le> \<bar>s\<bar> * (1 / 2 ^ 54)"
  proof -
    have "?c / 2 ^ 53 + \<bar>?c - 18 / 100\<bar> \<le> 1 / 2 ^ 54" by simp
    then have "\<bar>s\<bar> * (?c / 2 ^ 53 + \<bar>?c - 18 / 100\<bar>) \<le> \<bar>s\<bar> * (1 / 2 ^ 54)"
      by (intro mult_left_mono) simp_all
    then show ?thesis by (simp only: distrib_left)
  qed
  ultimately have "\<bar>binary64 (s * ?c) - s * ?c\<bar> + \<bar>s * ?c - s * 18 / 100\<bar>
      \<le> \<bar>s\<bar> / 2 ^ 54 + 1 / 2 ^ 1075"
    by simp
  moreover have "\<bar>binary64 (s * ?c) - s * 18 / 100\<bar>
      \<le> \<bar>binary64 (s * ?c) - s * ?c\<bar> + \<bar>s * ?c - s * 18 / 100\<bar>"
    by simp
  ultimately show ?thesis unfolding c by linarith
qed

lemma createOrder_total_error:
  assumes s: "\<bar>s\<bar> \<le> 2 ^ 44" and t: "\<bar>t - s * 18 / 100\<bar> \<le> \<bar>s\<bar> / 2 ^ 54 + 1 / 2 ^ 1075"
    and f: "f = 0 \<or> f = 50"
  shows "\<bar>binary64 (binary64 (s + t) + f) - (s + t + f)\<bar> \<le> 1 / 100"
proof -
  define d :: rat where "d = 1 / 2 ^ 1075"
  define y where "y = binary64 (s + t)"
  define z where "z = binary64 (y + f)"
  have tiny: "d \<le> 1 / 1000000"
  proof -
    have "(1::rat) / 2 ^ 1075 \<le> 1 / 2 ^ 20"
      by (intro divide_left_mono power_increasing) simp_all
    then show ?thesis by (simp add: d_def)
  qed
  have s1: "\<bar>s\<bar> \<le> 17592186044416" using s by simp
  have t1: "\<bar>t - s * 18 / 100\<bar> \<le> \<bar>s\<bar> / 18014398509481984 + d"
    using t by (simp add: d_def)
  have e1: "\<bar>y - (s + t)\<bar> \<le> \<bar>s + t\<bar> / 9007199254740992 + d"
    using binary64_error [of "s + t"] by (simp add: d_def y_def)
  have e2: "\<bar>z - (y + f)\<bar> \<le> \<bar>y + f\<bar> / 9007199254740992 + d"
    using binary64_error [of "y + f"] by (simp add: d_def z_def)
  have mono: "a / 9007199254740992 \<le> 29 / 10000" if "a \<le> 20758779532464" for a :: rat
  proof -
    from that have "a / 9007199254740992 \<le> 20758779532464 / 9007199254740992"
      by (rule divide_right_mono) simp
    also have "\<dots> \<le> 29 / 10000" by simp
    finally show ?thesis .
  qed
  have s2: "\<bar>s\<bar> / 18014398509481984 \<le> 1"
    using s1 by simp
  from t1 tiny s2 have "\<bar>t - s * 18 / 100\<bar> \<le> 2" by simp
  then have "\<bar>t\<bar> \<le> \<bar>s * 18 / 100\<bar> + 2" by simp
  moreover have "\<bar>s * 18 / 100\<bar> = \<bar>s\<bar> * 18 / 100" by (simp add: abs_mult)
  ultimately have tb: "\<bar>t\<bar> \<le> 3166593487997" using s1 by simp
  have "\<bar>s + t\<bar> \<le> \<bar>s\<bar> + \<bar>t\<bar>" by simp
  with s1 tb have x1: "\<bar>s + t\<bar> \<le> 20758779532413" by simp
  then have "\<bar>s + t\<bar> / 9007199254740992 \<le> 29 / 10000" by (intro mono) simp
  with e1 tiny have e1': "\<bar>y - (s + t)\<bar> \<le> 3 / 1000" by simp
  have "\<bar>y\<bar> \<le> \<bar>y - (s + t)\<bar> + \<bar>s + t\<bar>" by simp
  with e1' x1 have yb: "\<bar>y\<bar> \<le> 20758779532414" by simp
  have "\<bar>y + f\<bar> \<le> \<bar>y\<bar> + \<bar>f\<bar>" by simp
  moreover from f have "\<bar>f\<bar> \<le> 50" by auto
  ultimately have x2: "\<bar>y + f\<bar> \<le> 20758779532464" using yb by simp
  then have "\<bar>y + f\<bar> / 9007199254740992 \<le> 29 / 10000" by (rule mono)
  with e2 tiny have e2': "\<bar>z - (y + f)\<bar> \<le> 3 / 1000" by simp
  have "\<bar>z - (s + t + f)\<bar> \<le> \<bar>z - (y + f)\<bar> + \<bar>y - (s + t)\<bar>" by simp
  with e1' e2' have "\<bar>z - (s + t + f)\<bar> \<le> 1 / 100" by simp
  then show ?thesis by (simp add: z_def y_def)
qed

text \<open>
  C2 (amended): for every cart whose items all pass the loop of \<open>createOrder\<close>, the
  price computation is carried out in binary64 arithmetic. The subtotal is the rounded
  accumulation of the rounded products \<open>price * quantity\<close>. The tax is the rounded
  product of the subtotal and the binary64 value nearest to 0.18; it is 18% of the
  subtotal up to a relative error of \<open>2^-54\<close> (and \<open>2^-1075\<close>), not exactly. The
  shipping fee is 0 when the subtotal is at least 500 and 50 otherwise: the binary64
  value of 499.99 gives 50 and 500.00 gives 0. The total is the rounded sum
  (subtotal + tax) + shipping, which is within 0.01 of the exact sum of the three stored
  values whenever the subtotal is at most \<open>2^44\<close> in absolute value.
\<close>

theorem C2_price_computation:
  assumes "createOrder_loop productMap items 0 [] = Inr (subtotal, orderItems)"
    and "doc = createOrder_doc e user body addressObj subtotal orderItems"
  shows "o_subtotal doc = createOrder_subtotal productMap items \<and>
         o_tax doc = binary64 (o_subtotal doc * binary64 0.18) \<and>
         \<bar>o_tax doc - o_subtotal doc * 18 / 100\<bar> \<le> \<bar>o_subtotal doc\<bar> / 2 ^ 54 + 1 / 2 ^ 1075 \<and>
         o_shipping doc = (if o_subtotal doc \<ge> 500 then 0 else 50) \<and>
         o_total doc = binary64 (binary64 (o_subtotal doc + o_tax doc) + o_shipping doc) \<and>
         (\<bar>o_subtotal doc\<bar> \<le> 2 ^ 44 \<longrightarrow>
            \<bar>o_total doc - (o_subtotal doc + o_tax doc + o_shipping doc)\<bar> \<le> 1 / 100) \<and>
         fst (snd (createOrder_totals (binary64 499.99))) = 50 \<and>
         fst (snd (createOrder_totals 500.00)) = 0"
proof -
  have sub: "subtotal = createOrder_subtotal productMap items"
    using createOrder_loop_subtotal [OF assms(1)] by (simp add: createOrder_subtotal_def)
  have doc: "o_subtotal doc = subtotal" "o_tax doc = binary64 (subtotal * binary64 0.18)"
    "o_shipping doc = (if subtotal \<ge> 500 then 0 else 50)"
    "o_total doc = binary64 (binary64 (subtotal + binary64 (subtotal * binary64 0.18))
                     + (if subtotal \<ge> 500 then 0 else 50))"
    by (simp_all add: assms(2) createOrder_doc_def createOrder_totals_eq Let_def)
  have tax: "\<bar>o_tax doc - o_subtotal doc * 18 / 100\<bar>
      \<le> \<bar>o_subtotal doc\<bar> / 2 ^ 54 + 1 / 2 ^ 1075"
    unfolding doc by (rule createOrder_tax_error)
  have total: "\<bar>o_total doc - (o_subtotal doc + o_tax doc + o_shipping doc)\<bar> \<le> 1 / 100"
    if "\<bar>o_subtotal doc\<bar> \<le> 2 ^ 44"
  proof -
    have "o_shipping doc = 0 \<or> o_shipping doc = 50" by (simp add: doc)
    from createOrder_total_error [OF that tax this] show ?thesis by (simp add: doc)
  qed
  have low: "binary64 (49999 / 100) = 2198979275086889 / 4398046511104" by code_simp
  have fee: "fst (snd (createOrder_totals (binary64 499.99))) = 50"
    "fst (snd (createOrder_totals 500.00)) = 0"
    by (simp_all add: createOrder_totals_eq low)
  from sub doc tax total fee show ?thesis by simp
qed

text \<open>
  C2, as stated, fails: for the subtotal 211 the tax is the binary64 value of
  \<open>211 * 0.18\<close>, which is not 18% of 211; and for the subtotal
  \<open>7901234496790123 / 64\<close> (the binary64 value of 123456789012345.67) the total differs
  from subtotal + tax + shipping by \<open>1/64\<close>, more than 0.01.
\<close>

theorem C2_tax_rounded_and_tolerance_exceeded:
  "createOrder_totals 211
     = (5345209807735357 / 140737488355328, 50, 657463972944937 / 2199023255552) \<and>
   5345209807735357 / 140737488355328 \<noteq> (211::rat) * 18 / 100 \<and>
   createOrder_totals (7901234496790123 / 64)
     = (711111104711111 / 32, 0, 1165432088276543 / 8) \<and>
   \<bar>1165432088276543 / 8 - (7901234496790123 / 64 + 711111104711111 / 32 + 0)\<bar>
     > (1::rat) / 100"
proof -
  have small: "createOrder_totals 211
     = (5345209807735357 / 140737488355328, 50, 657463972944937 / 2199023255552)"
    unfolding createOrder_totals_def TAX_RATE_def DELIVERY_FEE_def by code_simp
  have large: "createOrder_totals (7901234496790123 / 64)
     = (711111104711111 / 32, 0, 1165432088276543 / 8)"
    unfolding createOrder_totals_def TAX_RATE_def DELIVERY_FEE_def by code_simp
  from small large show ?thesis by simp
qed

lemma randomSuffix_of_length: "length (randomSuffix_of rnd) \<le> 6"
  by (simp add: randomSuffix_of_def toUpperCase_def substr_def)

text \<open>
  C4, as stated, fails: two creation attempts in the same millisecond whose random draws
  differ only after the sixth base-36 digit generate the same order number.
\<close>

theorem C4_same_millisecond_collision:
  "createOrder_orderNumber 1700000000000 ''0.abc123x'' =
     createOrder_orderNumber 1700000000000 ''0.abc123y'' \<and>
   ''0.abc123x'' \<noteq> ''0.abc123y''"
  by (simp add: createOrder_orderNumber_def randomSuffix_of_def toUpperCase_def substr_def)


section \<open>The outcomes of createOrder\<close>

lemma productMap_fold_Some:
  "foldl (\<lambda>m p. m(p_id p \<mapsto> p)) m ps k = Some p \<Longrightarrow>
     (p \<in> set ps \<and> p_id p = k) \<or> m k = Some p"
proof (induction ps arbitrary: m)
  case Nil
  then show ?case by simp
next
  case (Cons q ps)
  from Cons.IH [of "m(p_id q \<mapsto> q)"] Cons.prems show ?case
    by (auto split: if_splits)
qed

lemma productMap_fold_None:
  "foldl (\<lambda>m p. m(p_id p \<mapsto> p)) m ps k = None \<longleftrightarrow> m k = None \<and> k \<notin> p_id ` set ps"
proof (induction ps arbitrary: m)
  case Nil
  then show ?case by simp
next
  case (Cons q ps)
  show ?case
    using Cons.IH [of "m(p_id q \<mapsto> q)"] by auto
qed

lemma createOrder_productMap_Some:
  "createOrder_productMap s items k = Some p \<Longrightarrow>
     p \<in> set (products s) \<and> p_id p = k \<and> p_status p = ACTIVE \<and> k \<in> ci_product ` set items"
  using productMap_fold_Some [of Map.empty "Product_find_ACTIVE s (map ci_product items)" k p]
  by (auto simp: createOrder_productMap_def productMap_of_def Product_find_ACTIVE_def)

lemma createOrder_productMap_None:
  "createOrder_productMap s items k = None \<longleftrightarrow>
     \<not> (\<exists>p\<in>set (products s). p_id p = k \<and> p_status p = ACTIVE \<and> k \<in> ci_product ` set items)"
  using productMap_fold_None [of Map.empty "Product_find_ACTIVE s (map ci_product items)" k]
  by (auto simp: createOrder_productMap_def productMap_of_def Product_find_ACTIVE_def image_iff)

lemma createOrder_guards_Inl:
  "createOrder_guards e s user body = Inl r \<Longrightarrow> \<exists>code msg. r = Failure code msg \<and> code \<noteq> 503"
  by (auto simp: createOrder_guards_def createOrder_catch_def split: if_splits option.splits)

lemma createOrder_guards_Inr:
  "createOrder_guards e s user body = Inr (items, a) \<Longrightarrow> carts s user = Some items \<and> items \<noteq> []"
  by (auto simp: createOrder_guards_def split: if_splits option.splits)

lemma createOrder_check_Inr_iff:
  "createOrder_check e s user body = Inr (a, sub, ois) \<longleftrightarrow>
     (\<exists>items. createOrder_guards e s user body = Inr (items, a) \<and> rejects e ProductFind = None \<and>
        createOrder_loop (createOrder_productMap s items) items 0 [] = Inr (sub, ois))"
  by (auto simp: createOrder_check_def split: sum.splits option.splits prod.splits)

lemma createOrder_check_Inl:
  assumes "createOrder_check e s user body = Inl r"
  shows "\<exists>code msg. r = Failure code msg \<and> code \<noteq> 503"
proof (cases "createOrder_guards e s user body")
  case (Inl r')
  with assms have "r' = r" by (simp add: createOrder_check_def)
  with Inl show ?thesis by (auto dest: createOrder_guards_Inl)
next
  case (Inr res)
  obtain items a where res: "res = (items, a)" by (cases res)
  show ?thesis
  proof (cases "rejects e ProductFind")
    case (Some msg)
    with assms Inr res show ?thesis
      by (auto simp: createOrder_check_def createOrder_catch_def)
  next
    case None
    with assms Inr res have
      "createOrder_loop (createOrder_productMap s items) items 0 [] = Inl r"
      by (auto simp: createOrder_check_def split: sum.splits)
    then show ?thesis by (auto dest: createOrder_loop_Inl)
  qed
qed

lemma AdminOrder_create_doc_Inr:
  "AdminOrder_create_doc e s doc = Inr s' \<Longrightarrow>
     s' = s\<lparr>orders := orders s @ [doc]\<rparr> \<and> adminDbConnection e = Some 1 \<and>
     rejects e AdminOrderCreate = None \<and> AdminOrder_valid doc \<and>
     o_orderNumber doc \<notin> set (map o_orderNumber (orders s))"
  by (auto simp: AdminOrder_create_doc_def split: if_splits option.splits)

lemma Cart_save_doc_Inr:
  "Cart_save_doc e s user items = Inr s' \<Longrightarrow>
     s' = s\<lparr>carts := (carts s)(user \<mapsto> items)\<rparr> \<and> rejects e CartSave = None \<and> Cart_valid items"
  by (auto simp: Cart_save_doc_def split: if_splits option.splits)

lemma createOrder_write_cases:
  assumes "createOrder_write e s user body a sub ois = (resp, s')"
    and "doc = createOrder_doc e user body a sub ois"
  shows "(adminDbConnection e \<noteq> Some 1 \<and> s' = s \<and>
            resp = Failure 503 ''Service temporarily unavailable. Please try again.'') \<or>
         (adminDbConnection e = Some 1 \<and> s' = s \<and>
            (\<exists>msg. AdminOrder_create_doc e s doc = Inl msg \<and> resp = createOrder_catch msg)) \<or>
         (AdminOrder_create_doc e s doc = Inr (s\<lparr>orders := orders s @ [doc]\<rparr>) \<and>
            (\<exists>msg. resp = createOrder_catch msg) \<and> s' = s\<lparr>orders := orders s @ [doc]\<rparr>) \<or>
         (AdminOrder_create_doc e s doc = Inr (s\<lparr>orders := orders s @ [doc]\<rparr>) \<and>
            resp = Success 201 (createOrder_response body a ois doc) \<and>
            s' = s\<lparr>orders := orders s @ [doc], carts := (carts s)(user \<mapsto> [])\<rparr>)"
proof (cases "adminDbConnection e = Some 1")
  case False
  with assms show ?thesis by (simp add: createOrder_write_def Let_def)
next
  case True
  show ?thesis
  proof (cases "AdminOrder_create_doc e s doc")
    case (Inl msg)
    with True assms show ?thesis by (simp add: createOrder_write_def Let_def)
  next
    case (Inr s1)
    then have s1: "s1 = s\<lparr>orders := orders s @ [doc]\<rparr>"
      by (simp add: AdminOrder_create_doc_Inr)
    show ?thesis
    proof (cases "Cart_save_doc e s1 user []")
      case (Inl msg)
      with True Inr s1 assms show ?thesis by (auto simp: createOrder_write_def Let_def)
    next
      case (Inr s2)
      then have "s2 = s1\<lparr>carts := (carts s1)(user \<mapsto> [])\<rparr>"
        by (simp add: Cart_save_doc_Inr)
      with True \<open>AdminOrder_create_doc e s doc = Inr s1\<close> Inr s1 assms show ?thesis
        by (auto simp: createOrder_write_def Let_def)
    qed
  qed
qed

lemma createOrder_outcome:
  assumes "createOrder e s user body = (resp, s')"
  shows "((\<exists>code msg. resp = Failure code msg) \<and> s' = s) \<or>
         (\<exists>a sub ois doc. createOrder_check e s user body = Inr (a, sub, ois) \<and>
            doc = createOrder_doc e user body a sub ois \<and>
            AdminOrder_create_doc e s doc = Inr (s\<lparr>orders := orders s @ [doc]\<rparr>) \<and>
            (((\<exists>msg. resp = Failure 500 msg) \<and> s' = s\<lparr>orders := orders s @ [doc]\<rparr>) \<or>
             (resp = Success 201 (createOrder_response body a ois doc) \<and>
              s' = s\<lparr>orders := orders s @ [doc], carts := (carts s)(user \<mapsto> [])\<rparr>)))"
proof (cases "createOrder_check e s user body")
  case (Inl r)
  with assms have "resp = r" "s' = s" by (simp_all add: createOrder_def)
  with Inl show ?thesis by (auto dest: createOrder_check_Inl)
next
  case (Inr res)
  obtain a sub ois where res: "res = (a, sub, ois)" by (cases res)
  from assms Inr res have w: "createOrder_write e s user body a sub ois = (resp, s')"
    by (simp add: createOrder_def)
  from createOrder_write_cases [OF w refl] Inr res show ?thesis
    by (auto simp: createOrder_catch_def)
qed


lemma createOrder_stock_conflict:
  assumes g: "createOrder_guards e s user body = Inr (pre @ item # post, address)"
    and r: "rejects e ProductFind = None"
    and pre: "list_all (createOrder_line_ok (createOrder_productMap s (pre @ item # post))) pre"
    and p: "createOrder_productMap s (pre @ item # post) (ci_product item) = Some p"
    and short: "availableStock_of p < ci_quantity item"
  shows "createOrder e s user body = (Failure 400 (''Insufficient stock for '' @ p_name p), s)"
proof -
  let ?pm = "createOrder_productMap s (pre @ item # post)"
  from createOrder_loop_prefix [OF pre, of "item # post" 0 "[]"] obtain sub' acc' where
    "createOrder_loop ?pm (pre @ item # post) 0 [] = createOrder_loop ?pm (item # post) sub' acc'"
    by blast
  with p short have
    "createOrder_loop ?pm (pre @ item # post) 0 [] =
       Inl (Failure 400 (''Insufficient stock for '' @ p_name p))"
    by simp
  with g r show ?thesis
    by (simp add: createOrder_def createOrder_check_def)
qed

text \<open>
  C1 (amended): when a request passes the checks that precede the loop and the first cart
  item that fails a check of the loop fails the stock check (every item before it has its
  product and the stock), \<open>createOrder\<close> answers 400 "Insufficient stock for" followed
  by the product name and leaves the stores as they were. In every invocation: a
  response other than the 201 leaves the carts unchanged; a rejected write of the order
  leaves the stores unchanged; and the cart changes only by being emptied after the order
  document has been appended to the shared store.
\<close>

theorem C1_cart_untouched_on_failure:
  assumes "createOrder e s user body = (resp, s')"
  shows "(createOrder_guards e s user body = Inr (pre @ item # post, address) \<and>
            rejects e ProductFind = None \<and>
            list_all (createOrder_line_ok (createOrder_productMap s (pre @ item # post))) pre \<and>
            createOrder_productMap s (pre @ item # post) (ci_product item) = Some p \<and>
            availableStock_of p < ci_quantity item
          \<longrightarrow> resp = Failure 400 (''Insufficient stock for '' @ p_name p) \<and> s' = s) \<and>
         ((\<forall>r. resp \<noteq> Success 201 r) \<longrightarrow> carts s' = carts s) \<and>
         (rejects e AdminOrderCreate \<noteq> None \<longrightarrow> s' = s) \<and>
         (carts s' \<noteq> carts s \<longrightarrow>
            (\<exists>doc. orders s' = orders s @ [doc]) \<and> carts s' = (carts s)(user \<mapsto> []))"
proof -
  have stock: "resp = Failure 400 (''Insufficient stock for '' @ p_name p) \<and> s' = s"
    if "createOrder_guards e s user body = Inr (pre @ item # post, address)"
      "rejects e ProductFind = None"
      "list_all (createOrder_line_ok (createOrder_productMap s (pre @ item # post))) pre"
      "createOrder_productMap s (pre @ item # post) (ci_product item) = Some p"
      "availableStock_of p < ci_quantity item"
    using createOrder_stock_conflict [OF that] assms by simp
  have rest: "((\<forall>r. resp \<noteq> Success 201 r) \<longrightarrow> carts s' = carts s) \<and>
         (rejects e AdminOrderCreate \<noteq> None \<longrightarrow> s' = s) \<and>
         (carts s' \<noteq> carts s \<longrightarrow>
            (\<exists>doc. orders s' = orders s @ [doc]) \<and> carts s' = (carts s)(user \<mapsto> []))"
    using createOrder_outcome [OF assms]
    by (auto dest: AdminOrder_create_doc_Inr)
  from stock rest show ?thesis by blast
qed

section \<open>Concrete runs\<close>

lemma ex_line_sel [simp]: "ci_product (ex_line a q) = a" "ci_quantity (ex_line a q) = q"
  by (simp_all add: ex_line_def)

lemma ex_env_sel [simp]: "rejects ex_env call = None" "adminDbConnection ex_env = Some 1"
  "now ex_env = 1700000000000" "random36 ex_env = ''0.k3j9x2mf7''"
  by (simp_all add: ex_env_def rejects_def getProductModel_def)

lemma ex_env_not_ready_sel [simp]:
  "rejects ex_env_not_ready CartFindOne = None" "rejects ex_env_not_ready AddressFindOne = None"
  "rejects ex_env_not_ready ProductFind =
     Some (''Product model: Admin database connection not established. '' @
           ''Ensure connectAdminDB() is called in server.ts before using Product model.'')"
  "adminDbConnection ex_env_not_ready = Some 0"
  by (simp_all add: ex_env_not_ready_def rejects_def getProductModel_def)

lemma ex_db_sel [simp]: "carts (ex_db cart) ''u1'' = Some cart"
  "products (ex_db cart) = [ex_milk, ex_rice, ex_soap, ex_candy]"
  "addresses (ex_db cart) = [ex_home]" "orders (ex_db cart) = []"
  by (simp_all add: ex_db_def)

lemma ex_product_sel [simp]:
  "p_id ex_milk = ''p1''" "p_id ex_rice = ''p2''" "p_id ex_soap = ''p3''" "p_id ex_candy = ''p4''"
  "p_status ex_milk = ACTIVE" "p_status ex_rice = ACTIVE" "p_status ex_soap = INACTIVE"
  "p_status ex_candy = UNAVAILABLE"
  "p_stock ex_milk = 10" "p_stock ex_rice = 3" "p_stock ex_soap = 25" "p_stock ex_candy = 100"
  "p_price ex_milk = 45.5" "p_price ex_rice = 120" "p_name ex_milk = ''Milk''"
  "p_name ex_rice = ''Rice''" "p_name ex_soap = ''Soap''"
  by (simp_all add: ex_milk_def ex_rice_def ex_soap_def ex_candy_def)

lemma ex_ids [simp]:
  "ObjectId_toString ''a1'' = ''a1''" "ObjectId_toString ''p1'' = ''p1''"
  "ObjectId_toString ''p3'' = ''p3''" "ObjectId_toString ''p9'' = ''p9''"
  "ObjectId_toString ''64B7F3A2C9E1D4A5B6C7D8E9'' = ''64b7f3a2c9e1d4a5b6c7d8e9''"
  by (simp_all add: ObjectId_toString_def toLowerCase_def toLowerCase_char_def)

lemma ex_guards:
  "cart \<noteq> [] \<Longrightarrow> rejects e CartFindOne = None \<Longrightarrow> rejects e AddressFindOne = None \<Longrightarrow>
     createOrder_guards e (ex_db cart) ''u1'' ex_cod = Inr (cart, ex_home)"
  by (simp add: createOrder_guards_def js_not_def Address_findOne_of_def ex_cod_def ex_home_def)

lemma ex_productMap_active:
  assumes "p \<in> {ex_milk, ex_rice}" and "p_id p \<in> ci_product ` set cart"
  shows "createOrder_productMap (ex_db cart) cart (p_id p) = Some p"
proof (cases "createOrder_productMap (ex_db cart) cart (p_id p)")
  case None
  with assms show ?thesis
    by (auto simp: createOrder_productMap_None)
next
  case (Some q)
  from createOrder_productMap_Some [OF Some]
  have "q \<in> {ex_milk, ex_rice, ex_soap, ex_candy}" "p_id q = p_id p" "p_status q = ACTIVE"
    by simp_all
  with assms(1) have "q = p" by auto
  with Some show ?thesis by simp
qed

lemma ex_productMap_other:
  "k \<notin> {''p1'', ''p2''} \<Longrightarrow> createOrder_productMap (ex_db cart) cart k = None"
  by (auto simp: createOrder_productMap_None)

lemma ex_productMap [simp]:
  "''p1'' \<in> ci_product ` set cart \<Longrightarrow> createOrder_productMap (ex_db cart) cart ''p1'' = Some ex_milk"
  "''p2'' \<in> ci_product ` set cart \<Longrightarrow> createOrder_productMap (ex_db cart) cart ''p2'' = Some ex_rice"
  "createOrder_productMap (ex_db cart) cart ''p3'' = None"
  "createOrder_productMap (ex_db cart) cart ''p4'' = None"
  "createOrder_productMap (ex_db cart) cart ''p9'' = None"
  using ex_productMap_active [of ex_milk cart] ex_productMap_active [of ex_rice cart]
  by (simp_all add: ex_productMap_other)

text \<open>
  The amended C1 on a cart whose second item asks for 5 of a product with stock 3, and on
  a good cart while the write of the order is rejected.
\<close>

theorem C1_cart_untouched_on_failure_witness:
  "createOrder ex_env (ex_db [ex_line ''p1'' 2, ex_line ''p2'' 5]) ''u1'' ex_cod =
     (Failure 400 ''Insufficient stock for Rice'', ex_db [ex_line ''p1'' 2, ex_line ''p2'' 5]) \<and>
   snd (createOrder ex_env_write_fails (ex_db [ex_line ''p1'' 2, ex_line ''p2'' 1]) ''u1'' ex_cod)
     = ex_db [ex_line ''p1'' 2, ex_line ''p2'' 1]"
proof -
  let ?cart = "[ex_line ''p1'' 2, ex_line ''p2'' 5]"
  let ?run = "createOrder ex_env (ex_db ?cart) ''u1'' ex_cod"
  have run: "?run = (fst ?run, snd ?run)" by simp
  have g: "createOrder_guards ex_env (ex_db ?cart) ''u1'' ex_cod
             = Inr ([ex_line ''p1'' 2] @ ex_line ''p2'' 5 # [], ex_home)"
    by (simp add: ex_guards)
  have pre: "list_all (createOrder_line_ok
                (createOrder_productMap (ex_db ([ex_line ''p1'' 2] @ ex_line ''p2'' 5 # []))
                   ([ex_line ''p1'' 2] @ ex_line ''p2'' 5 # []))) [ex_line ''p1'' 2]"
    by (simp add: createOrder_line_ok_def)
  have p: "createOrder_productMap (ex_db ([ex_line ''p1'' 2] @ ex_line ''p2'' 5 # []))
             ([ex_line ''p1'' 2] @ ex_line ''p2'' 5 # []) (ci_product (ex_line ''p2'' 5))
           = Some ex_rice"
    by simp
  have short: "availableStock_of ex_rice < ci_quantity (ex_line ''p2'' 5)" by simp
  let ?run2 = "createOrder ex_env_write_fails (ex_db [ex_line ''p1'' 2, ex_line ''p2'' 1]) ''u1'' ex_cod"
  have run2: "?run2 = (fst ?run2, snd ?run2)" by simp
  have rej: "rejects ex_env_write_fails AdminOrderCreate \<noteq> None"
    by (simp add: ex_env_write_fails_def rejects_def)
  from C1_cart_untouched_on_failure [OF run, of "[ex_line ''p1'' 2]" "ex_line ''p2'' 5" "[]" ex_home ex_rice]
    g pre p short
  have "fst ?run = Failure 400 (''Insufficient stock for '' @ p_name ex_rice) \<and>
        snd ?run = ex_db ?cart"
    by simp
  moreover from C1_cart_untouched_on_failure [OF run2] rej
  have "snd ?run2 = ex_db [ex_line ''p1'' 2, ex_line ''p2'' 1]" by blast
  ultimately show ?thesis by (simp add: prod_eq_iff)
qed

text \<open>
  C1, as stated, fails: the second item of this cart fails the stock check (5 asked, 3 in
  stock), yet the response is the one for the first item, whose product is not in the
  catalog, and not the stock conflict.
\<close>

theorem C1_missing_product_reported_first:
  "createOrder_productMap (ex_db [ex_line ''p9'' 1, ex_line ''p2'' 5])
      [ex_line ''p9'' 1, ex_line ''p2'' 5] ''p2'' = Some ex_rice \<and>
   availableStock_of ex_rice < 5 \<and>
   fst (createOrder ex_env (ex_db [ex_line ''p9'' 1, ex_line ''p2'' 5]) ''u1'' ex_cod)
     = Failure 400 ''Product not found for item in cart''"
  by (simp add: createOrder_def createOrder_check_def ex_guards)


lemma ex_binary64 [simp]: "binary64 91 = 91" "binary64 120 = 120" "binary64 211 = 211"
  by code_simp+

lemma createOrder_totals_211:
  "createOrder_totals 211
     = (5345209807735357 / 140737488355328, 50, 657463972944937 / 2199023255552)"
  unfolding createOrder_totals_def TAX_RATE_def DELIVERY_FEE_def by code_simp

lemma ex_loop:
  "createOrder_loop
      (createOrder_productMap (ex_db [ex_line ''p1'' 2, ex_line ''p2'' 1])
         [ex_line ''p1'' 2, ex_line ''p2'' 1])
      [ex_line ''p1'' 2, ex_line ''p2'' 1] 0 []
     = Inr (211, [createOrder_orderItem ex_milk (ex_line ''p1'' 2),
                  createOrder_orderItem ex_rice (ex_line ''p2'' 1)])"
  by simp

text \<open>
  The amended C2 on a cart of 2 Milk at 45.5 and 1 Rice at 120: the subtotal is 211, the
  tax is the binary64 value of \<open>211 * 0.18\<close>, the fee is 50, and the total is within
  0.01 of their sum.
\<close>

theorem C2_price_computation_witness:
  "createOrder_loop
      (createOrder_productMap (ex_db [ex_line ''p1'' 2, ex_line ''p2'' 1])
         [ex_line ''p1'' 2, ex_line ''p2'' 1])
      [ex_line ''p1'' 2, ex_line ''p2'' 1] 0 []
     = Inr (211, [createOrder_orderItem ex_milk (ex_line ''p1'' 2),
                  createOrder_orderItem ex_rice (ex_line ''p2'' 1)]) \<and>
   o_subtotal (createOrder_doc ex_env ''u1'' ex_cod ex_home 211
      [createOrder_orderItem ex_milk (ex_line ''p1'' 2),
       createOrder_orderItem ex_rice (ex_line ''p2'' 1)]) = 211 \<and>
   o_tax (createOrder_doc ex_env ''u1'' ex_cod ex_home 211
      [createOrder_orderItem ex_milk (ex_line ''p1'' 2),
       createOrder_orderItem ex_rice (ex_line ''p2'' 1)])
     = 5345209807735357 / 140737488355328 \<and>
   o_shipping (createOrder_doc ex_env ''u1'' ex_cod ex_home 211
      [createOrder_orderItem ex_milk (ex_line ''p1'' 2),
       createOrder_orderItem ex_rice (ex_line ''p2'' 1)]) = 50 \<and>
   \<bar>o_total (createOrder_doc ex_env ''u1'' ex_cod ex_home 211
        [createOrder_orderItem ex_milk (ex_line ''p1'' 2),
         createOrder_orderItem ex_rice (ex_line ''p2'' 1)])
      - (211 + 5345209807735357 / 140737488355328 + 50)\<bar> \<le> 1 / 100"
proof -
  let ?doc = "createOrder_doc ex_env ''u1'' ex_cod ex_home 211
      [createOrder_orderItem ex_milk (ex_line ''p1'' 2),
       createOrder_orderItem ex_rice (ex_line ''p2'' 1)]"
  have doc: "o_subtotal ?doc = 211" "o_tax ?doc = 5345209807735357 / 140737488355328"
    "o_shipping ?doc = 50"
    by (simp_all add: createOrder_doc_def createOrder_totals_211)
  have small: "\<bar>o_subtotal ?doc\<bar> \<le> 2 ^ 44" by (simp add: doc)
  from C2_price_computation [OF ex_loop refl, of ex_env "''u1''" ex_cod ex_home]
  have "\<bar>o_subtotal ?doc\<bar> \<le> 2 ^ 44 \<longrightarrow>
          \<bar>o_total ?doc - (o_subtotal ?doc + o_tax ?doc + o_shipping ?doc)\<bar> \<le> 1 / 100"
    by blast
  with small have "\<bar>o_total ?doc - (o_subtotal ?doc + o_tax ?doc + o_shipping ?doc)\<bar> \<le> 1 / 100"
    by blast
  then have "\<bar>o_total ?doc - (211 + 5345209807735357 / 140737488355328 + 50)\<bar> \<le> 1 / 100"
    by (simp only: doc)
  with doc ex_loop show ?thesis by blast
qed

lemma createOrder_doc_orderNumber:
  "o_orderNumber (createOrder_doc e user body a sub ois) =
     createOrder_orderNumber (now e) (random36 e)"
  by (simp add: createOrder_doc_def Let_def split: prod.splits)

lemma createOrder_response_orderNumber:
  "r_orderNumber (createOrder_response body a ois doc) = o_orderNumber doc"
  by (simp add: createOrder_response_def)

lemma digit_not_dash: "n < 10 \<Longrightarrow> ''0123456789'' ! n \<noteq> CHR ''-''"
proof -
  assume "n < 10"
  then have "''0123456789'' ! n \<in> set ''0123456789''" by (intro nth_mem) simp
  then show ?thesis by auto
qed

lemma digit_inj:
  "a < 10 \<Longrightarrow> b < 10 \<Longrightarrow> ''0123456789'' ! a = ''0123456789'' ! b \<Longrightarrow> a = b"
proof -
  assume "a < 10" "b < 10" "''0123456789'' ! a = ''0123456789'' ! b"
  moreover have "distinct ''0123456789''" by simp
  ultimately show ?thesis by (simp add: nth_eq_iff_index_eq)
qed

lemma string_of_nat_no_dash: "CHR ''-'' \<notin> set (string_of_nat n)"
proof (induction n rule: string_of_nat.induct)
  case (1 n)
  show ?case
  proof (cases "n < 10")
    case True
    with digit_not_dash [of n] show ?thesis by (simp add: string_of_nat.simps)
  next
    case False
    with "1.IH" digit_not_dash [of "n mod 10"] show ?thesis
      by (simp add: string_of_nat.simps [of n])
  qed
qed

lemma string_of_nat_length: "length (string_of_nat n) = 1 \<longleftrightarrow> n < 10"
proof (cases "n < 10")
  case True
  then show ?thesis by (simp add: string_of_nat.simps)
next
  case False
  have "string_of_nat (n div 10) \<noteq> []"
    by (cases "n div 10 < 10") (simp_all add: string_of_nat.simps [of "n div 10"])
  with False show ?thesis by (simp add: string_of_nat.simps [of n])
qed

lemma string_of_nat_inj: "string_of_nat n = string_of_nat m \<Longrightarrow> n = m"
proof (induction n arbitrary: m rule: string_of_nat.induct)
  case (1 n)
  show ?case
  proof (cases "n < 10")
    case True
    with "1.prems" string_of_nat_length [of n] string_of_nat_length [of m] have m: "m < 10"
      by simp
    with True "1.prems" have "''0123456789'' ! n = ''0123456789'' ! m"
      by (simp add: string_of_nat.simps)
    with True m show ?thesis by (rule digit_inj)
  next
    case False
    with "1.prems" string_of_nat_length [of n] string_of_nat_length [of m] have m: "\<not> m < 10"
      by simp
    with False "1.prems" have eq: "string_of_nat (n div 10) = string_of_nat (m div 10)"
      and d: "''0123456789'' ! (n mod 10) = ''0123456789'' ! (m mod 10)"
      by (simp_all add: string_of_nat.simps [of n] string_of_nat.simps [of m])
    from "1.IH" [OF False eq] have "n div 10 = m div 10" .
    moreover from d have "n mod 10 = m mod 10" by (intro digit_inj) simp_all
    ultimately show ?thesis by (metis div_mult_mod_eq)
  qed
qed

lemma dash_split:
  "CHR ''-'' \<notin> set a \<Longrightarrow> CHR ''-'' \<notin> set b \<Longrightarrow> a @ CHR ''-'' # x = b @ CHR ''-'' # y \<Longrightarrow>
     a = b \<and> x = y"
proof (induction a arbitrary: b)
  case Nil
  then show ?case by (cases b) auto
next
  case (Cons c a)
  then show ?case by (cases b) auto
qed

lemma createOrder_orderNumber_eq_iff:
  "createOrder_orderNumber t r = createOrder_orderNumber t' r' \<longleftrightarrow>
     t = t' \<and> randomSuffix_of r = randomSuffix_of r'"
proof
  assume "createOrder_orderNumber t r = createOrder_orderNumber t' r'"
  then have "string_of_nat t @ CHR ''-'' # randomSuffix_of r
             = string_of_nat t' @ CHR ''-'' # randomSuffix_of r'"
    by (simp add: createOrder_orderNumber_def)
  from dash_split [OF string_of_nat_no_dash string_of_nat_no_dash this]
  show "t = t' \<and> randomSuffix_of r = randomSuffix_of r'"
    by (auto dest: string_of_nat_inj)
next
  assume "t = t' \<and> randomSuffix_of r = randomSuffix_of r'"
  then show "createOrder_orderNumber t r = createOrder_orderNumber t' r'"
    by (simp add: createOrder_orderNumber_def)
qed

text \<open>
  C4 (amended): every generated order number is \<open>ORD-\<close>, the timestamp, \<open>-\<close> and a
  suffix, the suffix being the upper-cased characters 2 to 7 of the base-36 rendering of
  a random draw (at most six). Two generated numbers are equal exactly when their
  timestamps are equal and their suffixes are equal: numbers of different milliseconds
  are always distinct, and numbers of the same millisecond are distinct unless the
  suffixes coincide. The order schema declares \<open>orderNumber\<close> unique, so the write of
  a colliding number is refused: the number of a created order is not among the numbers
  already stored, and the order numbers of the stored orders stay pairwise distinct
  through every \<open>createOrder\<close>.
\<close>

theorem C4_order_number_shape_and_collisions:
  "createOrder_orderNumber timestamp rnd =
     ''ORD-'' @ string_of_nat timestamp @ ''-'' @ randomSuffix_of rnd \<and>
   randomSuffix_of rnd = toUpperCase (take 6 (drop 2 rnd)) \<and>
   length (randomSuffix_of rnd) \<le> 6 \<and>
   (createOrder_orderNumber timestamp rnd = createOrder_orderNumber timestamp' rnd'
      \<longleftrightarrow> timestamp = timestamp' \<and> randomSuffix_of rnd = randomSuffix_of rnd') \<and>
   (createOrder e s user body = (Success 201 r, s') \<longrightarrow>
      r_orderNumber r = createOrder_orderNumber (now e) (random36 e) \<and>
      r_orderNumber r \<notin> set (map o_orderNumber (orders s))) \<and>
   (distinct (map o_orderNumber (orders s)) \<longrightarrow>
      distinct (map o_orderNumber (orders (snd (createOrder e s user body)))))"
proof -
  have shape: "createOrder_orderNumber timestamp rnd =
     ''ORD-'' @ string_of_nat timestamp @ ''-'' @ randomSuffix_of rnd"
    "randomSuffix_of rnd = toUpperCase (take 6 (drop 2 rnd))"
    by (simp_all add: createOrder_orderNumber_def randomSuffix_of_def substr_def)
  have created: "r_orderNumber r = createOrder_orderNumber (now e) (random36 e) \<and>
      r_orderNumber r \<notin> set (map o_orderNumber (orders s))"
    if "createOrder e s user body = (Success 201 r, s')"
    using createOrder_outcome [OF that]
    by (auto dest!: AdminOrder_create_doc_Inr
        simp: createOrder_doc_orderNumber createOrder_response_orderNumber)
  have stored: "distinct (map o_orderNumber (orders (snd (createOrder e s user body))))"
    if "distinct (map o_orderNumber (orders s))"
    using createOrder_outcome [of e s user body "fst (createOrder e s user body)"
        "snd (createOrder e s user body)"] that
    by (auto dest!: AdminOrder_create_doc_Inr)
  from shape randomSuffix_of_length [of rnd]
    createOrder_orderNumber_eq_iff [of timestamp rnd timestamp' rnd'] created stored
  show ?thesis by blast
qed

lemma db_orders_update:
  "carts (s\<lparr>orders := os\<rparr>) = carts s" "addresses (s\<lparr>orders := os\<rparr>) = addresses s"
  "products (s\<lparr>orders := os\<rparr>) = products s"
  by simp_all

lemma createOrder_guards_orders:
  "createOrder_guards e (s\<lparr>orders := os\<rparr>) user body = createOrder_guards e s user body"
  unfolding createOrder_guards_def Address_findOne_of_def db_orders_update ..

lemma createOrder_productMap_orders:
  "createOrder_productMap (s\<lparr>orders := os\<rparr>) items = createOrder_productMap s items"
  unfolding createOrder_productMap_def Product_find_ACTIVE_def db_orders_update ..

lemma createOrder_check_orders:
  "createOrder_check e (s\<lparr>orders := os\<rparr>) user body = createOrder_check e s user body"
  by (simp only: createOrder_check_def createOrder_guards_orders createOrder_productMap_orders)

lemma ex_order_number:
  "createOrder_orderNumber 1700000000000 ''0.k3j9x2mf7'' = ''ORD-1700000000000-K3J9X2''"
proof -
  have digits: "string_of_nat 1700000000000 = ''1700000000000''"
    by (simp add: string_of_nat.simps)
  have suffix: "randomSuffix_of ''0.k3j9x2mf7'' = ''K3J9X2''"
    by (simp add: randomSuffix_of_def substr_def toUpperCase_def toUpperCase_char_def)
  from digits suffix show ?thesis by (simp add: createOrder_orderNumber_def)
qed

lemma ex_check:
  "createOrder_check ex_env (ex_db [ex_line ''p1'' 2, ex_line ''p2'' 1]) ''u1'' ex_cod
     = Inr (ex_home, 211, [createOrder_orderItem ex_milk (ex_line ''p1'' 2),
                           createOrder_orderItem ex_rice (ex_line ''p2'' 1)])"
  by (simp add: createOrder_check_def ex_guards ex_loop)

lemma ex_doc_valid:
  "AdminOrder_valid (createOrder_doc ex_env ''u1'' ex_cod ex_home 211
     [createOrder_orderItem ex_milk (ex_line ''p1'' 2),
      createOrder_orderItem ex_rice (ex_line ''p2'' 1)])"
  by (simp add: AdminOrder_valid_def AdminOrderItem_valid_def createOrder_doc_def
      createOrder_totals_211 createOrder_orderItem_def ex_order_number
      createOrder_paymentMethod_cases createOrder_paymentStatus_def js_index_or_def
      js_index_def paymentStatusMap_createOrder_def ex_cod_def)

lemma ex_collision:
  "createOrder ex_env ((ex_db [ex_line ''p1'' 2, ex_line ''p2'' 1])\<lparr>orders := [ex_order]\<rparr>)
      ''u1'' ex_cod
     = (Failure 500 ''E11000 duplicate key error'',
        (ex_db [ex_line ''p1'' 2, ex_line ''p2'' 1])\<lparr>orders := [ex_order]\<rparr>)"
proof -
  let ?doc = "createOrder_doc ex_env ''u1'' ex_cod ex_home 211
     [createOrder_orderItem ex_milk (ex_line ''p1'' 2),
      createOrder_orderItem ex_rice (ex_line ''p2'' 1)]"
  have num: "o_orderNumber ?doc = o_orderNumber ex_order"
    by (simp add: createOrder_doc_orderNumber ex_order_number ex_order_def)
  show ?thesis
    by (simp add: createOrder_def createOrder_check_orders ex_check createOrder_write_def
        AdminOrder_create_doc_def ex_doc_valid num createOrder_catch_def Let_def)
qed

text \<open>
  The amended C4 at the timestamp and the draw of the example environment, on a store
  that already holds an order with the number they generate: the write is refused with
  the duplicate-key error, and the stored numbers stay distinct.
\<close>

theorem C4_order_number_shape_and_collisions_witness:
  "createOrder_orderNumber 1700000000000 ''0.k3j9x2mf7'' = ''ORD-1700000000000-K3J9X2'' \<and>
   o_orderNumber ex_order = ''ORD-1700000000000-K3J9X2'' \<and>
   createOrder ex_env ((ex_db [ex_line ''p1'' 2, ex_line ''p2'' 1])\<lparr>orders := [ex_order]\<rparr>)
      ''u1'' ex_cod
     = (Failure 500 ''E11000 duplicate key error'',
        (ex_db [ex_line ''p1'' 2, ex_line ''p2'' 1])\<lparr>orders := [ex_order]\<rparr>) \<and>
   distinct (map o_orderNumber (orders (snd
     (createOrder ex_env ((ex_db [ex_line ''p1'' 2, ex_line ''p2'' 1])\<lparr>orders := [ex_order]\<rparr>)
        ''u1'' ex_cod))))"
proof -
  let ?s = "(ex_db [ex_line ''p1'' 2, ex_line ''p2'' 1])\<lparr>orders := [ex_order]\<rparr>"
  have d: "distinct (map o_orderNumber (orders ?s))" by simp
  from C4_order_number_shape_and_collisions
    [of 1700000000000 "''0.k3j9x2mf7''" 1700000000000 "''0.k3j9x2mf7''" ex_env ?s
      "''u1''" ex_cod] d ex_order_number ex_collision
  show ?thesis by (simp add: ex_order_def)
qed


section \<open>Unresolved products and the readiness of the shared store\<close>

lemma createOrder_doc_items:
  "o_items (createOrder_doc e user body a sub ois) =
     map (\<lambda>item. \<lparr>ai_product = oi_product item, ai_name = oi_name item,
                   ai_quantity = oi_quantity item, ai_price = oi_price item,
                   ai_subtotal = binary64 (oi_price item * oi_quantity item)\<rparr>) ois"
  by (simp add: createOrder_doc_def Let_def split: prod.splits)

lemma createOrder_check_lines:
  assumes "createOrder_check e s user body = Inr (a, sub, ois)"
  obtains items where "carts s user = Some items"
    "list_all (createOrder_line_ok (createOrder_productMap s items)) items"
    "\<forall>oi\<in>set ois. \<exists>item\<in>set items. \<exists>p.
        createOrder_productMap s items (ci_product item) = Some p \<and>
        oi = createOrder_orderItem p item"
proof -
  from assms obtain items where g: "createOrder_guards e s user body = Inr (items, a)"
    and loop: "createOrder_loop (createOrder_productMap s items) items 0 [] = Inr (sub, ois)"
    by (auto simp: createOrder_check_Inr_iff)
  have "\<forall>oi\<in>set ois. \<exists>item\<in>set items. \<exists>p.
        createOrder_productMap s items (ci_product item) = Some p \<and>
        oi = createOrder_orderItem p item"
    using createOrder_loop_items [OF loop] by auto
  with createOrder_guards_Inr [OF g] createOrder_loop_ok [OF loop] that show ?thesis
    by blast
qed

text \<open>
  C8: when the customer's cart has an item whose product reference matches no ACTIVE
  product of the catalog (the product is absent, INACTIVE or UNAVAILABLE),
  \<open>createOrder\<close> answers with an error and writes nothing. Whenever
  \<open>createOrder\<close> writes an order document, every item of the document carries the
  id, the name and the price of an ACTIVE product of the catalog, so an UNAVAILABLE
  product is never in a created order.
\<close>

theorem C8_unresolved_product_fails_order:
  assumes "createOrder e s user body = (resp, s')"
  shows "(carts s user = Some items \<and> item \<in> set items \<and>
            \<not> (\<exists>p\<in>set (products s). p_id p = ci_product item \<and> p_status p = ACTIVE)
          \<longrightarrow> (\<exists>code msg. resp = Failure code msg) \<and> s' = s) \<and>
         (orders s' = orders s \<or>
          (\<exists>doc. orders s' = orders s @ [doc] \<and>
             (\<forall>ai\<in>set (o_items doc). \<exists>p\<in>set (products s).
                 p_id p = ai_product ai \<and> p_status p = ACTIVE \<and>
                 ai_name ai = p_name p \<and> ai_price ai = p_price p)))"
proof -
  have written: "\<forall>ai\<in>set (o_items (createOrder_doc e user body a sub ois)).
      \<exists>p\<in>set (products s). p_id p = ai_product ai \<and> p_status p = ACTIVE \<and>
        ai_name ai = p_name p \<and> ai_price ai = p_price p"
    if chk: "createOrder_check e s user body = Inr (a, sub, ois)" for a sub ois
  proof -
    from chk obtain its where its: "\<forall>oi\<in>set ois. \<exists>item\<in>set its. \<exists>p.
        createOrder_productMap s its (ci_product item) = Some p \<and>
        oi = createOrder_orderItem p item"
      by (rule createOrder_check_lines)
    show ?thesis
    proof
      fix ai
      assume "ai \<in> set (o_items (createOrder_doc e user body a sub ois))"
      then obtain oi where oi: "oi \<in> set ois" and ai: "ai_product ai = oi_product oi"
        "ai_name ai = oi_name oi" "ai_price ai = oi_price oi"
        by (auto simp: createOrder_doc_items)
      from its oi obtain item p where
        p: "createOrder_productMap s its (ci_product item) = Some p"
        and "oi = createOrder_orderItem p item"
        by blast
      with ai createOrder_productMap_Some [OF p]
      show "\<exists>p\<in>set (products s). p_id p = ai_product ai \<and> p_status p = ACTIVE \<and>
              ai_name ai = p_name p \<and> ai_price ai = p_price p"
        by (auto simp: createOrder_orderItem_def)
    qed
  qed
  have bad: "(\<exists>code msg. resp = Failure code msg) \<and> s' = s"
    if cart: "carts s user = Some items" and item: "item \<in> set items"
      and none: "\<not> (\<exists>p\<in>set (products s). p_id p = ci_product item \<and> p_status p = ACTIVE)"
  proof -
    have "createOrder_check e s user body \<noteq> Inr (a, sub, ois)" for a sub ois
    proof
      assume "createOrder_check e s user body = Inr (a, sub, ois)"
      then obtain its where "carts s user = Some its"
        and ok: "list_all (createOrder_line_ok (createOrder_productMap s its)) its"
        by (rule createOrder_check_lines)
      with cart have "its = items" by simp
      with ok item have "createOrder_line_ok (createOrder_productMap s items) item"
        by (simp add: list_all_iff)
      then obtain p where "createOrder_productMap s items (ci_product item) = Some p"
        by (auto simp: createOrder_line_ok_def split: option.splits)
      from createOrder_productMap_Some [OF this] none show False by blast
    qed
    with createOrder_outcome [OF assms] show ?thesis by blast
  qed
  from createOrder_outcome [OF assms] written
  have "orders s' = orders s \<or>
          (\<exists>doc. orders s' = orders s @ [doc] \<and>
             (\<forall>ai\<in>set (o_items doc). \<exists>p\<in>set (products s).
                 p_id p = ai_product ai \<and> p_status p = ACTIVE \<and>
                 ai_name ai = p_name p \<and> ai_price ai = p_price p))"
    by (elim disjE exE conjE) simp_all
  with bad show ?thesis by blast
qed

text \<open>C8 on a cart of one Milk and one Candy, the Candy being UNAVAILABLE.\<close>

theorem C8_unresolved_product_fails_order_witness:
  "carts (ex_db [ex_line ''p1'' 1, ex_line ''p4'' 1]) ''u1''
     = Some [ex_line ''p1'' 1, ex_line ''p4'' 1] \<and>
   p_status ex_candy = UNAVAILABLE \<and>
   (\<exists>code msg. fst (createOrder ex_env (ex_db [ex_line ''p1'' 1, ex_line ''p4'' 1]) ''u1'' ex_cod)
      = Failure code msg) \<and>
   snd (createOrder ex_env (ex_db [ex_line ''p1'' 1, ex_line ''p4'' 1]) ''u1'' ex_cod)
     = ex_db [ex_line ''p1'' 1, ex_line ''p4'' 1]"
proof -
  let ?db = "ex_db [ex_line ''p1'' 1, ex_line ''p4'' 1]"
  let ?run = "createOrder ex_env ?db ''u1'' ex_cod"
  have run: "?run = (fst ?run, snd ?run)" by simp
  have cart: "carts ?db ''u1'' = Some [ex_line ''p1'' 1, ex_line ''p4'' 1]" by simp
  have item: "ex_line ''p4'' 1 \<in> set [ex_line ''p1'' 1, ex_line ''p4'' 1]" by simp
  have none: "\<not> (\<exists>p\<in>set (products ?db).
                  p_id p = ci_product (ex_line ''p4'' 1) \<and> p_status p = ACTIVE)"
    by simp
  from C8_unresolved_product_fails_order [OF run,
      of "[ex_line ''p1'' 1, ex_line ''p4'' 1]" "ex_line ''p4'' 1"] cart item none
  show ?thesis by simp
qed

text \<open>
  While the admin connection is not ready, \<open>createOrder\<close> changes no store and answers
  an error; the 503 of its readiness guard is the answer exactly when every earlier check
  and the catalog query have passed.
\<close>

lemma createOrder_not_ready:
  assumes "adminDbConnection e \<noteq> Some 1"
  shows "snd (createOrder e s user body) = s \<and>
         (\<exists>code msg. fst (createOrder e s user body) = Failure code msg) \<and>
         (fst (createOrder e s user body)
            = Failure 503 ''Service temporarily unavailable. Please try again.'' \<longleftrightarrow>
          (\<exists>items address. createOrder_guards e s user body = Inr (items, address) \<and>
             rejects e ProductFind = None \<and>
             list_all (createOrder_line_ok (createOrder_productMap s items)) items))"
proof (cases "createOrder_check e s user body")
  case (Inl r)
  then have run: "createOrder e s user body = (r, s)" by (simp add: createOrder_def)
  from createOrder_check_Inl [OF Inl] obtain code msg where
    r: "r = Failure code msg" "code \<noteq> 503" by blast
  have "\<not> (\<exists>items address. createOrder_guards e s user body = Inr (items, address) \<and>
             rejects e ProductFind = None \<and>
             list_all (createOrder_line_ok (createOrder_productMap s items)) items)"
  proof
    assume "\<exists>items address. createOrder_guards e s user body = Inr (items, address) \<and>
             rejects e ProductFind = None \<and>
             list_all (createOrder_line_ok (createOrder_productMap s items)) items"
    then obtain items address where g: "createOrder_guards e s user body = Inr (items, address)"
      and rj: "rejects e ProductFind = None"
      and ok: "list_all (createOrder_line_ok (createOrder_productMap s items)) items"
      by blast
    from createOrder_loop_total [OF ok, of 0 "[]"] obtain res where
      "createOrder_loop (createOrder_productMap s items) items 0 [] = Inr res" by blast
    with g rj have "\<exists>x. createOrder_check e s user body = Inr x"
      by (cases res) (simp add: createOrder_check_def)
    with Inl show False by simp
  qed
  with run r show ?thesis by simp
next
  case (Inr res)
  obtain a sub ois where res: "res = (a, sub, ois)" by (cases res)
  with Inr assms have run: "createOrder e s user body =
      (Failure 503 ''Service temporarily unavailable. Please try again.'', s)"
    by (simp add: createOrder_def createOrder_write_def)
  from Inr res obtain items where g: "createOrder_guards e s user body = Inr (items, a)"
    and rj: "rejects e ProductFind = None"
    and loop: "createOrder_loop (createOrder_productMap s items) items 0 [] = Inr (sub, ois)"
    by (auto simp: createOrder_check_Inr_iff)
  from createOrder_loop_ok [OF loop] g rj run show ?thesis by auto
qed

text \<open>
  With the connection not ready and the product model not created before, the catalog
  query does not pass, so the 503 is never the answer.
\<close>

lemma createOrder_not_ready_never_503:
  assumes "adminDbConnection e \<noteq> Some 1" and "\<not> ProductModel e"
  shows "fst (createOrder e s user body)
           \<noteq> Failure 503 ''Service temporarily unavailable. Please try again.''"
proof -
  from assms have "rejects e ProductFind \<noteq> None"
    by (simp add: rejects_def getProductModel_def)
  with createOrder_not_ready [OF assms(1), of s user body] show ?thesis by blast
qed

text \<open>
  C9 asks that \<open>createOrder\<close>, while the shared order store is not ready, fail at once
  with the retryable service-unavailable answer, write no order and leave the cart
  unchanged. The code at a request with a good body, a cart of two items in stock and
  the customer's address, the admin connection being disconnected and the product model
  not created before: no order is written and the cart is unchanged, but the answer is
  the 500 with the message of the error that the product model's proxy throws at the
  catalog query; the guard that answers 503 comes after that query.
\<close>

theorem C9_not_ready_answers_500:
  "adminDbConnection ex_env_not_ready \<noteq> Some 1 \<and>
   createOrder ex_env_not_ready (ex_db [ex_line ''p1'' 2, ex_line ''p2'' 1]) ''u1'' ex_cod
     = (Failure 500
          (''Product model: Admin database connection not established. '' @
           ''Ensure connectAdminDB() is called in server.ts before using Product model.''),
        ex_db [ex_line ''p1'' 2, ex_line ''p2'' 1])"
  by (simp add: createOrder_def createOrder_check_def ex_guards createOrder_catch_def)


section \<open>Properties of the cart controller\<close>

lemma findIndex_ge: "- 1 \<le> findIndex P xs"
  by (induction xs) (auto simp: Let_def)

lemma findIndex_none: "findIndex P xs = - 1 \<longleftrightarrow> (\<forall>x\<in>set xs. \<not> P x)"
proof (induction xs)
  case Nil
  show ?case by simp
next
  case (Cons x xs)
  with findIndex_ge [of P xs] show ?case by (auto simp: Let_def)
qed

lemma findIndex_find_none: "findIndex P xs = - 1 \<Longrightarrow> find P xs = None"
  by (simp add: findIndex_none find_None_iff)

lemma findIndex_first:
  "findIndex P xs > - 1 \<Longrightarrow>
     nat (findIndex P xs) < length xs \<and> find P xs = Some (xs ! nat (findIndex P xs))"
proof (induction xs)
  case Nil
  then show ?case by simp
next
  case (Cons x xs)
  show ?case
  proof (cases "P x")
    case True
    then show ?thesis by simp
  next
    case False
    with Cons.prems have pos: "findIndex P xs > - 1"
      by (auto simp: Let_def split: if_splits)
    with False Cons.IH show ?thesis
      by (auto simp: Let_def nat_add_distrib)
  qed
qed

lemma findIndex_update:
  "findIndex P xs > - 1 \<Longrightarrow> P y \<Longrightarrow> find P (xs[nat (findIndex P xs) := y]) = Some y"
proof (induction xs)
  case Nil
  then show ?case by simp
next
  case (Cons x xs)
  show ?case
  proof (cases "P x")
    case True
    with Cons.prems show ?thesis by simp
  next
    case False
    with Cons.prems have pos: "findIndex P xs > - 1"
      by (auto simp: Let_def split: if_splits)
    then have "nat (findIndex P xs + 1) = Suc (nat (findIndex P xs))" by simp
    with False pos Cons.IH Cons.prems(2) show ?thesis
      by (auto simp: Let_def)
  qed
qed

lemma find_append_new: "find P xs = None \<Longrightarrow> P y \<Longrightarrow> find P (xs @ [y]) = Some y"
  by (induction xs) (auto split: if_splits)

lemma cart_respond_state: "cart_respond e s items = (resp, s') \<Longrightarrow> s' = s"
  by (auto simp: cart_respond_def split: sum.splits)

lemma cart_save_respond_Success:
  "cart_save_respond e s user items = (Success code cart, s') \<Longrightarrow>
     s' = s\<lparr>carts := (carts s)(user \<mapsto> items)\<rparr>"
  by (auto simp: cart_save_respond_def dest: Cart_save_doc_Inr cart_respond_state
      split: sum.splits)

lemma Cart_create_doc_Inr:
  "Cart_create_doc e s user items = Inr s' \<Longrightarrow> s' = s\<lparr>carts := (carts s)(user \<mapsto> items)\<rparr>"
  by (auto simp: Cart_create_doc_def split: if_splits option.splits)

lemma Product_findById_None:
  "Product_findById s productId = None \<longleftrightarrow>
     ObjectId_toString productId \<notin> p_id ` set (products s)"
  by (auto simp: Product_findById_def find_None_iff image_iff)

text \<open>What a successful \<open>addToCart\<close> has gone through.\<close>

lemma addToCart_Success:
  assumes run: "addToCart e s user body = (Success code cart, s')"
  defines "productId \<equiv> req_productId body"
    and "quantity \<equiv> (case req_quantity body of None \<Rightarrow> 1 | Some q \<Rightarrow> q)"
  obtains product where "Product_findById s productId = Some product"
    "\<not> availableStock_of product < quantity"
    "(carts s user = None \<and>
        s' = s\<lparr>carts := (carts s)(user \<mapsto> [\<lparr>ci_product = ObjectId_toString productId, ci_quantity = quantity\<rparr>])\<rparr>) \<or>
     (\<exists>items. carts s user = Some items \<and>
        findIndex (\<lambda>item. ci_product item = productId) items > - 1 \<and>
        \<not> binary64 (ci_quantity (items ! nat (findIndex (\<lambda>item. ci_product item = productId) items))
            + quantity) > availableStock_of product \<and>
        s' = s\<lparr>carts := (carts s)(user \<mapsto>
               items[nat (findIndex (\<lambda>item. ci_product item = productId) items) :=
                  (items ! nat (findIndex (\<lambda>item. ci_product item = productId) items))
                    \<lparr>ci_quantity :=
                       binary64
                         (ci_quantity (items ! nat (findIndex (\<lambda>item. ci_product item = productId) items))
                          + quantity)\<rparr>])\<rparr>) \<or>
     (\<exists>items. carts s user = Some items \<and>
        \<not> findIndex (\<lambda>item. ci_product item = productId) items > - 1 \<and>
        s' = s\<lparr>carts := (carts s)(user \<mapsto>
               items @ [\<lparr>ci_product = ObjectId_toString productId, ci_quantity = quantity\<rparr>])\<rparr>)"
proof -
  from run have rej1: "rejects e ProductFindById = None"
    by (auto simp: addToCart_def Let_def split: option.splits)
  with run obtain product where product: "Product_findById s productId = Some product"
    by (auto simp: addToCart_def Let_def productId_def split: option.splits)
  with run rej1 have stock: "\<not> availableStock_of product < quantity"
    by (auto simp: addToCart_def Let_def productId_def quantity_def split: if_splits)
  with run rej1 product have rej2: "rejects e CartFindOne = None"
    by (auto simp: addToCart_def Let_def productId_def quantity_def split: option.splits)
  show ?thesis
  proof (cases "carts s user")
    case None
    have "s' = s\<lparr>carts := (carts s)(user \<mapsto> [\<lparr>ci_product = ObjectId_toString productId, ci_quantity = quantity\<rparr>])\<rparr>"
    proof (cases "Cart_create_doc e s user [\<lparr>ci_product = ObjectId_toString productId, ci_quantity = quantity\<rparr>]")
      case (Inl message)
      with run rej1 rej2 product stock None show ?thesis
        by (simp add: addToCart_def Let_def productId_def quantity_def)
    next
      case (Inr s1)
      with run rej1 rej2 product stock None have
        "cart_respond e s1 [\<lparr>ci_product = ObjectId_toString productId, ci_quantity = quantity\<rparr>]
           = (Success code cart, s')"
        by (simp add: addToCart_def Let_def productId_def quantity_def)
      with Inr show ?thesis
        by (auto dest: Cart_create_doc_Inr cart_respond_state)
    qed
    with None product stock that show ?thesis by blast
  next
    case (Some items)
    let ?i = "findIndex (\<lambda>item. ci_product item = productId) items"
    show ?thesis
    proof (cases "?i > - 1")
      case True
      with run rej1 rej2 product stock Some have
        le: "\<not> binary64 (ci_quantity (items ! nat ?i) + quantity) > availableStock_of product"
        by (auto simp: addToCart_def Let_def productId_def quantity_def split: if_splits)
      with run rej1 rej2 product stock Some True have
        "cart_save_respond e s user
           (items[nat ?i := (items ! nat ?i)\<lparr>ci_quantity :=
              binary64 (ci_quantity (items ! nat ?i) + quantity)\<rparr>])
         = (Success code cart, s')"
        by (simp add: addToCart_def Let_def productId_def quantity_def)
      from cart_save_respond_Success [OF this] Some True le product stock that
      show ?thesis by blast
    next
      case False
      with run rej1 rej2 product stock Some have
        "cart_save_respond e s user (items @ [\<lparr>ci_product = ObjectId_toString productId, ci_quantity = quantity\<rparr>])
         = (Success code cart, s')"
        by (simp add: addToCart_def Let_def productId_def quantity_def)
      from cart_save_respond_Success [OF this] Some False product stock that
      show ?thesis by blast
    qed
  qed
qed


text \<open>
  When the product id of the request is in the form that \<open>toString()\<close> renders, after
  a successful \<open>addToCart\<close> the first line with that product id is the merged or the
  appended one, and its quantity does not exceed the stock read in the call.
\<close>

lemma addToCart_canonical_within_stock:
  assumes "addToCart e s user body = (Success 200 cart, s')"
    and canonical: "ObjectId_toString (req_productId body) = req_productId body"
  shows "\<exists>product items' line.
     Product_findById s (req_productId body) = Some product \<and>
     carts s' user = Some items' \<and>
     find (\<lambda>item. ci_product item = req_productId body) items' = Some line \<and>
     ci_quantity line =
       (case carts s user of
          None \<Rightarrow> (case req_quantity body of None \<Rightarrow> 1 | Some q \<Rightarrow> q)
        | Some items \<Rightarrow>
            (case find (\<lambda>item. ci_product item = req_productId body) items of
               None \<Rightarrow> (case req_quantity body of None \<Rightarrow> 1 | Some q \<Rightarrow> q)
             | Some old \<Rightarrow>
                 binary64 (ci_quantity old
                           + (case req_quantity body of None \<Rightarrow> 1 | Some q \<Rightarrow> q)))) \<and>
     ci_quantity line \<le> availableStock_of product \<and>
     availableStock_of product = p_stock product"
proof -
  let ?pid = "req_productId body"
  let ?qty = "case req_quantity body of None \<Rightarrow> 1 | Some q \<Rightarrow> q"
  let ?P = "\<lambda>item. ci_product item = ?pid"
  let ?new = "\<lparr>ci_product = ObjectId_toString ?pid, ci_quantity = ?qty\<rparr>"
  from assms(1) obtain product where product: "Product_findById s ?pid = Some product"
    and stock: "\<not> availableStock_of product < ?qty"
    and cases: "(carts s user = None \<and> s' = s\<lparr>carts := (carts s)(user \<mapsto> [?new])\<rparr>) \<or>
     (\<exists>items. carts s user = Some items \<and> findIndex ?P items > - 1 \<and>
        \<not> binary64 (ci_quantity (items ! nat (findIndex ?P items)) + ?qty)
            > availableStock_of product \<and>
        s' = s\<lparr>carts := (carts s)(user \<mapsto>
               items[nat (findIndex ?P items) :=
                  (items ! nat (findIndex ?P items))
                    \<lparr>ci_quantity :=
                       binary64 (ci_quantity (items ! nat (findIndex ?P items)) + ?qty)\<rparr>])\<rparr>) \<or>
     (\<exists>items. carts s user = Some items \<and> \<not> findIndex ?P items > - 1 \<and>
        s' = s\<lparr>carts := (carts s)(user \<mapsto> items @ [?new])\<rparr>)"
    by (rule addToCart_Success)
  from canonical have new: "?P ?new" by simp
  from cases show ?thesis
  proof (elim disjE exE conjE)
    assume "carts s user = None" "s' = s\<lparr>carts := (carts s)(user \<mapsto> [?new])\<rparr>"
    with product stock new show ?thesis by simp
  next
    fix items
    assume cart: "carts s user = Some items" and pos: "findIndex ?P items > - 1"
      and le: "\<not> binary64 (ci_quantity (items ! nat (findIndex ?P items)) + ?qty)
                 > availableStock_of product"
      and s': "s' = s\<lparr>carts := (carts s)(user \<mapsto>
               items[nat (findIndex ?P items) :=
                  (items ! nat (findIndex ?P items))
                    \<lparr>ci_quantity :=
                       binary64 (ci_quantity (items ! nat (findIndex ?P items)) + ?qty)\<rparr>])\<rparr>"
    let ?old = "items ! nat (findIndex ?P items)"
    let ?line = "?old\<lparr>ci_quantity := binary64 (ci_quantity ?old + ?qty)\<rparr>"
    from findIndex_first [OF pos] have old: "find ?P items = Some ?old" by simp
    then have "?P ?old" by (auto simp: find_Some_iff)
    then have "?P ?line" by simp
    from findIndex_update [OF pos this]
    have "find ?P (items[nat (findIndex ?P items) := ?line]) = Some ?line" .
    with cart old le s' product show ?thesis by simp
  next
    fix items
    assume cart: "carts s user = Some items" and neg: "\<not> findIndex ?P items > - 1"
      and s': "s' = s\<lparr>carts := (carts s)(user \<mapsto> items @ [?new])\<rparr>"
    from neg findIndex_ge [of ?P items] have "findIndex ?P items = - 1" by simp
    then have none: "find ?P items = None" by (rule findIndex_find_none)
    with new have "find ?P (items @ [?new]) = Some ?new" by (simp add: find_append_new)
    with cart none s' product stock show ?thesis by simp
  qed
qed

lemma populateCartProducts_eq:
  "populateCartProducts e s items =
     (if items = [] then Inr []
      else case rejects e ProductFind of
        Some message \<Rightarrow> Inl message
      | None \<Rightarrow>
          Inr (List.map_filter
                 (\<lambda>item. case createOrder_productMap s items (ci_product item) of
                            None \<Rightarrow> None
                          | Some product \<Rightarrow>
                              Some \<lparr>pi_product = product, pi_quantity = ci_quantity item\<rparr>)
                 items))"
  by (simp add: populateCartProducts_def createOrder_productMap_def Let_def
      split: option.splits)

lemma ex_db_update [simp]:
  "(ex_db cart)\<lparr>carts := (carts (ex_db cart))(''u1'' \<mapsto> cart')\<rparr> = ex_db cart'"
  by (simp add: ex_db_def)

lemma ex_add_sel [simp]: "req_productId (ex_add a q) = a" "req_quantity (ex_add a q) = Some q"
  by (simp_all add: ex_add_def)

lemma ex_findById [simp]:
  "Product_findById (ex_db cart) ''p1'' = Some ex_milk"
  "Product_findById (ex_db cart) ''p3'' = Some ex_soap"
  "Product_findById (ex_db cart) ''p9'' = None"
  by (simp_all add: Product_findById_def)

lemma ex_tea_sel [simp]:
  "p_id ex_tea = ''64b7f3a2c9e1d4a5b6c7d8e9''" "p_stock ex_tea = 10" "p_status ex_tea = ACTIVE"
  "carts (ex_tea_db cart) ''u1'' = Some cart" "products (ex_tea_db cart) = [ex_tea]"
  "(ex_tea_db cart)\<lparr>carts := (carts (ex_tea_db cart))(''u1'' \<mapsto> cart')\<rparr> = ex_tea_db cart'"
  by (simp_all add: ex_tea_def ex_tea_db_def)

text \<open>
  C7 asks that after every successful \<open>addToCart\<close> the quantity of the affected cart
  line, existing + added when the product already has a line, do not exceed the stock
  read in the call. The code at a cart that holds 8 of a product with stock 10, when 5
  more are added under the upper-case spelling of the product's id: \<open>findById\<close> casts
  the string and finds the product, \<open>findIndex\<close> compares the stored id with the
  string as it is and finds no line, and a second line of 5 is appended with answer 200.
  The cart then holds 13 of a product with stock 10.
\<close>

theorem C7_upper_case_id_appends_line:
  "addToCart ex_env (ex_tea_db [ex_line ''64b7f3a2c9e1d4a5b6c7d8e9'' 8]) ''u1''
      (ex_add ''64B7F3A2C9E1D4A5B6C7D8E9'' 5)
     = (Success 200 [\<lparr>pi_product = ex_tea, pi_quantity = 8\<rparr>,
                     \<lparr>pi_product = ex_tea, pi_quantity = 5\<rparr>],
        ex_tea_db [ex_line ''64b7f3a2c9e1d4a5b6c7d8e9'' 8,
                   ex_line ''64b7f3a2c9e1d4a5b6c7d8e9'' 5]) \<and>
   p_stock ex_tea = 10 \<and> p_stock ex_tea < 8 + 5"
proof -
  have new: "\<lparr>ci_product = ''64b7f3a2c9e1d4a5b6c7d8e9'', ci_quantity = 5\<rparr>
               = ex_line ''64b7f3a2c9e1d4a5b6c7d8e9'' 5"
    by (simp add: ex_line_def)
  have found: "Product_findById (ex_tea_db [ex_line ''64b7f3a2c9e1d4a5b6c7d8e9'' 8])
                 ''64B7F3A2C9E1D4A5B6C7D8E9'' = Some ex_tea"
    by (simp add: Product_findById_def)
  have pm: "createOrder_productMap
              (ex_tea_db [ex_line ''64b7f3a2c9e1d4a5b6c7d8e9'' 8,
                          ex_line ''64b7f3a2c9e1d4a5b6c7d8e9'' 5])
              [ex_line ''64b7f3a2c9e1d4a5b6c7d8e9'' 8, ex_line ''64b7f3a2c9e1d4a5b6c7d8e9'' 5]
              ''64b7f3a2c9e1d4a5b6c7d8e9'' = Some ex_tea"
    by (simp add: createOrder_productMap_def Product_find_ACTIVE_def productMap_of_def)
  show ?thesis
    by (simp add: addToCart_def Let_def found cart_save_respond_def Cart_save_doc_def
        Cart_valid_def cart_respond_def populateCartProducts_eq List.map_filter_simps new pm)
qed


lemma cart_respond_not_404: "fst (cart_respond e s items) \<noteq> Failure 404 msg"
  by (simp add: cart_respond_def split: sum.splits)

lemma cart_save_respond_not_404: "fst (cart_save_respond e s user items) \<noteq> Failure 404 msg"
  by (simp add: cart_save_respond_def cart_respond_not_404 split: sum.splits)

lemma addToCart_found_not_404:
  assumes "Product_findById s (req_productId body) = Some product"
  shows "fst (addToCart e s user body) \<noteq> Failure 404 msg"
proof (cases "rejects e ProductFindById")
  case (Some m)
  then show ?thesis by (simp add: addToCart_def Let_def)
next
  case None
  note rej1 = None
  show ?thesis
  proof (cases "rejects e CartFindOne")
    case (Some m)
    with rej1 assms show ?thesis by (simp add: addToCart_def Let_def)
  next
    case None
    note rej2 = None
    show ?thesis
    proof (cases "carts s user")
      case None
      with rej1 rej2 assms show ?thesis
        by (simp add: addToCart_def Let_def cart_respond_not_404 split: sum.splits)
    next
      case (Some items)
      with rej1 rej2 assms show ?thesis
        by (simp add: addToCart_def Let_def cart_save_respond_not_404)
    qed
  qed
qed

text \<open>
  C6, as stated, fails: \<open>addToCart\<close> looks the product up by id alone, so an INACTIVE
  product with enough stock is not rejected; the item is written to the stored cart (and
  only left out of the returned, populated cart).
\<close>

theorem C6_inactive_product_added:
  "Product_findById (ex_db []) ''p3'' = Some ex_soap \<and> p_status ex_soap = INACTIVE \<and>
   addToCart ex_env (ex_db []) ''u1'' (ex_add ''p3'' 1)
     = (Success 200 [], ex_db [ex_line ''p3'' 1])"
proof -
  have new: "\<lparr>ci_product = ''p3'', ci_quantity = 1\<rparr> = ex_line ''p3'' 1"
    by (simp add: ex_line_def)
  show ?thesis
    by (simp add: addToCart_def Let_def cart_save_respond_def Cart_save_doc_def Cart_valid_def
        cart_respond_def populateCartProducts_eq List.map_filter_simps new)
qed

text \<open>
  C6 (amended): when the lookup by id does not reject, \<open>addToCart\<close> answers 404
  "Product not found" exactly when no product of the catalog has the given id (the id
  that the string of the request is cast to), whatever the status of the products; in
  that case no store is changed. The status of the product is not consulted.
\<close>

theorem C6_unknown_product_rejected:
  assumes "rejects e ProductFindById = None"
  shows "(fst (addToCart e s user body) = Failure 404 ''Product not found'' \<longleftrightarrow>
            ObjectId_toString (req_productId body) \<notin> p_id ` set (products s)) \<and>
         (ObjectId_toString (req_productId body) \<notin> p_id ` set (products s) \<longrightarrow>
            snd (addToCart e s user body) = s)"
proof (cases "Product_findById s (req_productId body)")
  case None
  with assms have "addToCart e s user body = (Failure 404 ''Product not found'', s)"
    by (simp add: addToCart_def Let_def)
  with None show ?thesis by (simp add: Product_findById_None)
next
  case (Some product)
  then have "ObjectId_toString (req_productId body) \<in> p_id ` set (products s)"
    using Product_findById_None [of s "req_productId body"] by simp
  with addToCart_found_not_404 [OF Some] show ?thesis by simp
qed

text \<open>The amended C6 on a product id that the catalog does not have.\<close>

theorem C6_unknown_product_rejected_witness:
  "rejects ex_env ProductFindById = None \<and>
   ObjectId_toString ''p9'' \<notin> p_id ` set (products (ex_db [ex_line ''p1'' 2])) \<and>
   addToCart ex_env (ex_db [ex_line ''p1'' 2]) ''u1'' (ex_add ''p9'' 1)
     = (Failure 404 ''Product not found'', ex_db [ex_line ''p1'' 2])"
proof -
  have rej: "rejects ex_env ProductFindById = None" by simp
  have unknown: "ObjectId_toString ''p9'' \<notin> p_id ` set (products (ex_db [ex_line ''p1'' 2]))"
    by simp
  from C6_unknown_product_rejected [OF rej, of "ex_db [ex_line ''p1'' 2]" "''u1''" "ex_add ''p9'' 1"]
    unknown rej
  show ?thesis by (simp add: prod_eq_iff)
qed

lemma removeFromCart_saved:
  assumes "rejects e CartFindOne = None" "carts s user = Some items"
    "Cart_save_doc e s user (filter (\<lambda>item. ci_product item \<noteq> productId) items) = Inr s1"
  shows "removeFromCart e s user productId =
           cart_respond e s1 (filter (\<lambda>item. ci_product item \<noteq> productId) items)"
    and "removeFromCart e s1 user productId = removeFromCart e s user productId"
proof -
  let ?kept = "filter (\<lambda>item. ci_product item \<noteq> productId) items"
  from assms show first: "removeFromCart e s user productId = cart_respond e s1 ?kept"
    by (simp add: removeFromCart_def cart_save_respond_def)
  from Cart_save_doc_Inr [OF assms(3)] have s1: "s1 = s\<lparr>carts := (carts s)(user \<mapsto> ?kept)\<rparr>"
    and rej: "rejects e CartSave = None" and valid: "Cart_valid ?kept"
    by simp_all
  from s1 have cart1: "carts s1 user = Some ?kept" by simp
  from s1 have "s1\<lparr>carts := (carts s1)(user \<mapsto> ?kept)\<rparr> = s1" by simp
  with rej valid have "Cart_save_doc e s1 user ?kept = Inr s1"
    by (simp add: Cart_save_doc_def)
  with assms(1) cart1 have "removeFromCart e s1 user productId = cart_respond e s1 ?kept"
    by (simp add: removeFromCart_def cart_save_respond_def)
  with first show "removeFromCart e s1 user productId = removeFromCart e s user productId"
    by simp
qed

lemma removeFromCart_idem:
  "removeFromCart e (snd (removeFromCart e s user productId)) user productId
     = removeFromCart e s user productId"
proof (cases "rejects e CartFindOne")
  case (Some m)
  then show ?thesis by (simp add: removeFromCart_def)
next
  case None
  note rej = None
  show ?thesis
  proof (cases "carts s user")
    case None
    with rej show ?thesis by (simp add: removeFromCart_def)
  next
    case (Some items)
    let ?kept = "filter (\<lambda>item. ci_product item \<noteq> productId) items"
    show ?thesis
    proof (cases "Cart_save_doc e s user ?kept")
      case (Inl m)
      with rej Some show ?thesis
        by (simp add: removeFromCart_def cart_save_respond_def)
    next
      case (Inr s1)
      from removeFromCart_saved [OF rej Some Inr]
      have run: "removeFromCart e s user productId = cart_respond e s1 ?kept"
        and again: "removeFromCart e s1 user productId = removeFromCart e s user productId"
        by simp_all
      from run have "snd (removeFromCart e s user productId) = s1"
        using cart_respond_state [of e s1 ?kept "fst (cart_respond e s1 ?kept)"
            "snd (cart_respond e s1 ?kept)"]
        by simp
      with again show ?thesis by simp
    qed
  qed
qed

text \<open>
  C10: for a customer with a stored cart (its items valid for the cart schema) and a
  product id that no item of the cart has, \<open>removeFromCart\<close>, when none of its
  database calls rejects, answers 200 with the populated cart, the very response of
  \<open>getCart\<close>, and leaves the stored cart and every store as they were. For every
  cart and product id, removing twice gives the same response and the same stores as
  removing once.
\<close>

theorem C10_remove_absent_product:
  "(carts s user = Some items \<and> (\<forall>item\<in>set items. ci_product item \<noteq> productId) \<and>
      Cart_valid items \<and> rejects e CartFindOne = None \<and> rejects e CartSave = None \<and>
      rejects e ProductFind = None
    \<longrightarrow> (\<exists>cart. removeFromCart e s user productId = (Success 200 cart, s) \<and>
               getCart e s user = (Success 200 cart, s)) \<and>
        carts (snd (removeFromCart e s user productId)) user = Some items) \<and>
   removeFromCart e (snd (removeFromCart e s user productId)) user productId
     = removeFromCart e s user productId"
proof -
  have absent: "(\<exists>cart. removeFromCart e s user productId = (Success 200 cart, s) \<and>
               getCart e s user = (Success 200 cart, s)) \<and>
        carts (snd (removeFromCart e s user productId)) user = Some items"
    if cart: "carts s user = Some items"
      and none: "\<forall>item\<in>set items. ci_product item \<noteq> productId"
      and valid: "Cart_valid items" and rej: "rejects e CartFindOne = None"
      "rejects e CartSave = None" "rejects e ProductFind = None"
  proof -
    from none have kept: "filter (\<lambda>item. ci_product item \<noteq> productId) items = items"
      by (simp add: filter_id_conv)
    from cart have same: "s\<lparr>carts := (carts s)(user \<mapsto> items)\<rparr> = s" by (simp add: fun_upd_idem)
    with valid rej have save: "Cart_save_doc e s user items = Inr s"
      by (simp add: Cart_save_doc_def)
    from rej have "\<exists>view. populateCartProducts e s items = Inr view"
      by (simp add: populateCartProducts_eq)
    then obtain view where view: "populateCartProducts e s items = Inr view" ..
    with cart rej save kept have "removeFromCart e s user productId = (Success 200 view, s)"
      by (simp add: removeFromCart_def cart_save_respond_def cart_respond_def)
    moreover from view cart rej have "getCart e s user = (Success 200 view, s)"
      by (simp add: getCart_def cart_respond_def)
    ultimately show ?thesis using cart by simp
  qed
  with removeFromCart_idem [of e s user productId] show ?thesis by blast
qed

text \<open>
  C10 on a cart of 2 Milk and 1 Soap (INACTIVE) from which Rice, which it does not
  hold, is removed: the stored cart keeps both lines; the returned cart is the populated
  one, where the Soap is not shown.
\<close>

theorem C10_remove_absent_product_witness:
  "removeFromCart ex_env (ex_db [ex_line ''p1'' 2, ex_line ''p3'' 1]) ''u1'' ''p2''
     = (Success 200 [\<lparr>pi_product = ex_milk, pi_quantity = 2\<rparr>],
        ex_db [ex_line ''p1'' 2, ex_line ''p3'' 1]) \<and>
   carts (snd (removeFromCart ex_env (ex_db [ex_line ''p1'' 2, ex_line ''p3'' 1]) ''u1'' ''p2''))
     ''u1'' = Some [ex_line ''p1'' 2, ex_line ''p3'' 1]"
proof -
  let ?cart = "[ex_line ''p1'' 2, ex_line ''p3'' 1]"
  have cart: "carts (ex_db ?cart) ''u1'' = Some ?cart" by simp
  have none: "\<forall>item\<in>set ?cart. ci_product item \<noteq> ''p2''" by simp
  have valid: "Cart_valid ?cart" by (simp add: Cart_valid_def)
  have view: "getCart ex_env (ex_db ?cart) ''u1''
                = (Success 200 [\<lparr>pi_product = ex_milk, pi_quantity = 2\<rparr>], ex_db ?cart)"
    by (simp add: getCart_def cart_respond_def populateCartProducts_eq List.map_filter_simps)
  from C10_remove_absent_product [of "ex_db ?cart" "''u1''" ?cart "''p2''" ex_env]
    cart none valid view
  show ?thesis by auto
qed

end
